theory Spec2Isabelle
  imports Main "HOL-Library.Word"
begin

unbundle bit_operations_syntax

section \<open>The C and C++ library functions the collectors call\<close>

text \<open>
  A \<open>std::string\<close> is a \<open>string\<close> (a list of bytes). The collectors hand their
  strings to the C library through \<open>c_str()\<close>, where the text ends at the first
  NUL byte; \<open>deref s i\<close> is the byte \<open>*(s + i)\<close> of such a NUL-terminated buffer.
\<close>

definition c_str :: "string \<Rightarrow> string" where
  "c_str s = takeWhile (\<lambda>c. c \<noteq> CHR 0x00) s"

definition deref :: "string \<Rightarrow> nat \<Rightarrow> char" where
  "deref s i = (if i < length s then s ! i else CHR 0x00)"

text \<open>\<open>isspace\<close> and \<open>isdigit\<close> in the C locale.\<close>

definition isspace :: "char \<Rightarrow> bool" where
  "isspace c = (c \<in> set [CHR '' '', CHR 0x09, CHR 0x0A, CHR 0x0B, CHR 0x0C, CHR 0x0D])"

definition isdigit :: "char \<Rightarrow> bool" where
  "isdigit c = (c \<in> set ''0123456789'')"

definition digit_value :: "char \<Rightarrow> int" where
  "digit_value c = int (of_char c) - 48"

definition dec_value :: "string \<Rightarrow> int" where
  "dec_value ds = foldl (\<lambda>acc c. 10 * acc + digit_value c) 0 ds"

text \<open>
  What the build fixes. Whether \<open>_AIX\<close> is defined. The data model: AIX
  compiles for 32 bits by default (\<open>ILP32\<close>, \<open>long\<close> has 32 bits) and for 64
  bits on request (\<open>LP64\<close>, \<open>long\<close> has 64 bits). The width of \<open>pid_t\<close>:
  \<open>static_cast<pid_t>\<close> of a \<open>long\<close> keeps that many low bits, as a signed value.
\<close>

datatype data_model = ILP32 | LP64

record platform =
  defined_AIX :: bool
  long_model :: data_model
  pid_t_bits :: nat

definition long_bits :: "platform \<Rightarrow> nat" where
  "long_bits pf = (case long_model pf of ILP32 \<Rightarrow> 32 | LP64 \<Rightarrow> 64)"

definition LONG_MAX :: "platform \<Rightarrow> int" where
  "LONG_MAX pf = 2 ^ (long_bits pf - 1) - 1"

definition LONG_MIN :: "platform \<Rightarrow> int" where
  "LONG_MIN pf = - (2 ^ (long_bits pf - 1))"

definition INT32_MAX :: int where
  "INT32_MAX = 2 ^ 31 - 1"

definition as_pid_t :: "platform \<Rightarrow> int \<Rightarrow> int" where
  "as_pid_t pf v = signed_take_bit (pid_t_bits pf - 1) v"

text \<open>
  \<open>strtol(nptr, &endPtr, 10)\<close>: white space is skipped, then an optional sign, then
  the longest run of decimal digits. The result is the value, saturated at
  \<open>LONG_MIN\<close> and \<open>LONG_MAX\<close>, and the offset of \<open>endPtr\<close> from \<open>nptr\<close>;
  with no digit to convert the value is 0 and \<open>endPtr = nptr\<close> (offset 0).
\<close>

definition strtol :: "platform \<Rightarrow> string \<Rightarrow> int \<times> nat" where
  "strtol pf nptr =
     (let ws = length (takeWhile isspace nptr);
          s1 = drop ws nptr;
          neg = (case s1 of [] \<Rightarrow> False | c # _ \<Rightarrow> c = CHR ''-'');
          sg = (case s1 of [] \<Rightarrow> 0
                | c # _ \<Rightarrow> if c = CHR ''-'' \<or> c = CHR ''+'' then 1 else 0);
          ds = takeWhile isdigit (drop sg s1);
          acc = dec_value ds
      in if ds = [] then (0, 0)
         else (if neg then max (LONG_MIN pf) (- acc) else min (LONG_MAX pf) acc,
               ws + sg + length ds))"

text \<open>\<open>operator<<\<close> on an integer: decimal, no grouping, \<open>-\<close> for a negative value.\<close>

fun show_nat :: "nat \<Rightarrow> string" where
  "show_nat n =
     (if n < 10 then [''0123456789'' ! n]
      else show_nat (n div 10) @ [''0123456789'' ! (n mod 10)])"

declare show_nat.simps [simp del]

definition show_int :: "int \<Rightarrow> string" where
  "show_int i = (if i < 0 then CHR ''-'' # show_nat (nat (- i)) else show_nat (nat i))"

text \<open>\<open>std::oct\<close>: the octal digits of an unsigned value.\<close>

fun show_oct :: "nat \<Rightarrow> string" where
  "show_oct n =
     (if n < 8 then [''01234567'' ! n]
      else show_oct (n div 8) @ [''01234567'' ! (n mod 8)])"

declare show_oct.simps [simp del]

text \<open>
  \<open>std::getline(stream, line)\<close> in a loop: the lines of a text, split at
  \<open>\n\<close>; a last line with no newline counts when it is not empty. The first
  argument is the line read so far.
\<close>

fun getlines :: "string \<Rightarrow> string \<Rightarrow> string list" where
  "getlines cur [] = (if cur = [] then [] else [cur])"
| "getlines cur (c # cs) =
     (if c = CHR 0x0A then cur # getlines [] cs else getlines (cur @ [c]) cs)"

text \<open>
  \<open>while (lineStream >> token) tokens.push_back(token)\<close>: the maximal runs of
  bytes that are not white space. The first argument is the token read so far.
\<close>

fun tokenize :: "string \<Rightarrow> string \<Rightarrow> string list" where
  "tokenize cur [] = (if cur = [] then [] else [cur])"
| "tokenize cur (c # cs) =
     (if isspace c then (if cur = [] then tokenize [] cs else cur # tokenize [] cs)
      else tokenize (cur @ [c]) cs)"

text \<open>
  \<open>s.rfind(c)\<close>, \<open>s.find_first_not_of(chars)\<close> (\<open>None\<close> is \<open>npos\<close>),
  \<open>s.substr(pos)\<close> and \<open>s.substr(0, n)\<close>. The collectors call \<open>substr\<close> with
  a position that \<open>rfind\<close> returned, or the one after it, so it never throws.
\<close>

fun rfind :: "string \<Rightarrow> char \<Rightarrow> nat option" where
  "rfind [] c = None"
| "rfind (x # xs) c =
     (case rfind xs c of
        Some i \<Rightarrow> Some (Suc i)
      | None \<Rightarrow> if x = c then Some 0 else None)"

fun find_first_not_of :: "string \<Rightarrow> string \<Rightarrow> nat option" where
  "find_first_not_of [] chars = None"
| "find_first_not_of (x # xs) chars =
     (if x \<in> set chars then map_option Suc (find_first_not_of xs chars) else Some 0)"

definition substr_from :: "string \<Rightarrow> nat \<Rightarrow> string" where
  "substr_from s pos = drop pos s"

definition substr_to :: "string \<Rightarrow> nat \<Rightarrow> string" where
  "substr_to s n = take n s"

section \<open>types.h and collector_base.h\<close>

text \<open>
  The fields \<open>values\<close> of \<open>MetadataAttribute\<close> and \<open>identifier\<close> of
  \<open>MetadataResult\<close> are \<open>vals\<close> and \<open>identifier'\<close> here: the source's names are
  keywords.
\<close>

record MetadataAttribute =
  name :: string
  vals :: "string list"

text \<open>\<open>MetadataResult() : success(false)\<close>: the strings and the vector start empty.\<close>

record MetadataResult =
  type :: string
  identifier' :: string
  attributes :: "MetadataAttribute list"
  success :: bool
  errorMessage :: string

definition MetadataResult0 :: MetadataResult where
  "MetadataResult0 =
     \<lparr>type = [], identifier' = [], attributes = [], success = False, errorMessage = []\<rparr>"

definition addAttribute :: "string \<Rightarrow> string \<Rightarrow> MetadataResult \<Rightarrow> MetadataResult" where
  "addAttribute n v result =
     result\<lparr>attributes := attributes result @ [\<lparr>name = n, vals = [v]\<rparr>]\<rparr>"

definition addAttribute_list :: "string \<Rightarrow> string list \<Rightarrow> MetadataResult \<Rightarrow> MetadataResult" where
  "addAttribute_list n vs result =
     result\<lparr>attributes := attributes result @ [\<lparr>name = n, vals = vs\<rparr>]\<rparr>"

text \<open>
  The numeric overloads print the value in decimal. \<open>as_int64\<close> and \<open>as_uint64\<close>
  are the \<open>static_cast\<close>s to the parameter's type that the callers write.
\<close>

definition as_int64 :: "int \<Rightarrow> int" where
  "as_int64 v = signed_take_bit 63 v"

definition as_uint64 :: "int \<Rightarrow> int" where
  "as_uint64 v = take_bit 64 v"

definition addAttribute_int64 :: "string \<Rightarrow> int \<Rightarrow> MetadataResult \<Rightarrow> MetadataResult" where
  "addAttribute_int64 n v result = addAttribute n (show_int (as_int64 v)) result"

definition addAttribute_uint64 :: "string \<Rightarrow> int \<Rightarrow> MetadataResult \<Rightarrow> MetadataResult" where
  "addAttribute_uint64 n v result = addAttribute n (show_int (as_uint64 v)) result"

datatype QueryType = Process | File | Port

datatype Protocol = TCP | UDP | Both

definition createErrorResult :: "string \<Rightarrow> string \<Rightarrow> MetadataResult" where
  "createErrorResult ident errorMsg =
     MetadataResult0\<lparr>success := False, identifier' := ident, errorMessage := errorMsg\<rparr>"

section \<open>port_collector.cpp\<close>

record ConnectionInfo =
  protocol :: string
  localAddress :: string
  localPort :: string
  remoteAddress :: string
  remotePort :: string
  state :: string
  pid :: int
  processName :: string
  user :: string

text \<open>
  The commands run through \<open>popen\<close>. The system is a state \<open>'w\<close> and a function
  that, for a command line and a state, gives what \<open>executeCommand\<close> sees and the
  next state: \<open>PopenNull\<close> when \<open>popen\<close> returns no pipe, otherwise the text the
  \<open>fgets\<close> loop gathers from the pipe and the status \<open>pclose\<close> returns.
\<close>

datatype popen_result = PopenNull | PopenOutput string int

type_synonym 'w shell = "string \<Rightarrow> 'w \<Rightarrow> popen_result \<times> 'w"

text \<open>
  \<open>executeCommand(cmd, output)\<close>: the flag returned and the new content of
  \<open>output\<close>, which is left as it was when \<open>popen\<close> fails.
\<close>

definition executeCommand :: "'w shell \<Rightarrow> string \<Rightarrow> string \<Rightarrow> 'w \<Rightarrow> (bool \<times> string) \<times> 'w" where
  "executeCommand sh cmd output w =
     (case sh (c_str cmd) w of
        (PopenNull, w') \<Rightarrow> ((False, output), w')
      | (PopenOutput text status, w') \<Rightarrow> ((status = 0 \<or> text \<noteq> [], text), w'))"

definition parsePort :: "platform \<Rightarrow> string \<Rightarrow> 16 word option" where
  "parsePort pf ident =
     (case strtol pf (c_str ident) of
        (v, endPtr) \<Rightarrow>
          if endPtr = 0 \<or> deref (c_str ident) endPtr \<noteq> CHR 0x00 then None
          else if v \<le> 0 \<or> v > 65535 then None
          else Some (word_of_int v))"

text \<open>The loop of \<open>findProcessForPort\<close> over the lines of the \<open>lsof\<close> output (\<open>_AIX\<close>).\<close>

fun lsofLines :: "platform \<Rightarrow> string list \<Rightarrow> ConnectionInfo \<Rightarrow> ConnectionInfo" where
  "lsofLines pf [] info = info"
| "lsofLines pf (line # rest) info =
     (if line = [] then lsofLines pf rest info
      else
        (let tokens = tokenize [] line in
         if length tokens < 2 \<or> tokens ! 0 = ''COMMAND'' then lsofLines pf rest info
         else if length tokens \<ge> 3 then
           (case strtol pf (c_str (tokens ! 1)) of
              (p, endPtr) \<Rightarrow>
                info\<lparr>processName := tokens ! 0,
                     pid := (if deref (c_str (tokens ! 1)) endPtr = CHR 0x00
                             then as_pid_t pf p else pid info),
                     user := tokens ! 2\<rparr>)
         else lsofLines pf rest info))"

definition findProcessForPort :: "platform \<Rightarrow> 'w shell \<Rightarrow> 16 word \<Rightarrow> string \<Rightarrow> ConnectionInfo \<Rightarrow> 'w \<Rightarrow> ConnectionInfo \<times> 'w" where
  "findProcessForPort pf sh port proto info w =
     (if defined_AIX pf then
        (case executeCommand sh
                (''lsof -i :'' @ show_nat (unat port) @ '' -n -P 2>/dev/null | grep -i '' @ proto)
                [] w of
           ((ok, output), w') \<Rightarrow>
             if \<not> ok \<or> output = [] then (info, w')
             else (lsofLines pf (getlines [] output) info, w'))
      else
        (case executeCommand sh
                (''lsof -i :'' @ show_nat (unat port)
                   @ '' -n -P 2>/dev/null | grep -v COMMAND | head -1'')
                [] w of
           ((ok, output), w') \<Rightarrow>
             if ok \<and> output \<noteq> [] then
               (let tokens = tokenize [] output in
                if length tokens \<ge> 3 then
                  (case strtol pf (c_str (tokens ! 1)) of
                     (p, endPtr) \<Rightarrow>
                       (info\<lparr>processName := tokens ! 0,
                             user := tokens ! 2,
                             pid := (if deref (c_str (tokens ! 1)) endPtr = CHR 0x00
                                     then as_pid_t pf p else pid info)\<rparr>, w'))
                else (info, w'))
             else (info, w')))"

text \<open>
  The first token is a socket address when it is longer than 10 bytes and has
  hexadecimal digits only.
\<close>

definition isSocketAddr :: "string \<Rightarrow> bool" where
  "isSocketAddr tok =
     (length tok > 10 \<and> find_first_not_of tok ''0123456789abcdefABCDEF'' = None)"

text \<open>
  \<open>portMismatch pf s port\<close> is the test
  \<open>strtol(s.c_str(), &endPtr, 10); *endPtr != '\\0' || num != port\<close>.
\<close>

definition portMismatch :: "platform \<Rightarrow> string \<Rightarrow> 16 word \<Rightarrow> bool" where
  "portMismatch pf portStr port =
     (case strtol pf (c_str portStr) of
        (num, endPtr) \<Rightarrow> deref (c_str portStr) endPtr \<noteq> CHR 0x00 \<or> num \<noteq> uint port)"

text \<open>
  One turn of the loop of \<open>parseNetstatOutput\<close>: \<open>None\<close> when the line is
  skipped (\<open>continue\<close>), otherwise the record pushed on \<open>connections\<close>.
\<close>

definition parseNetstatLine :: "platform \<Rightarrow> 'w shell \<Rightarrow> 16 word \<Rightarrow> string \<Rightarrow> string \<Rightarrow> 'w \<Rightarrow> ConnectionInfo option \<times> 'w" where
  "parseNetstatLine pf sh port proto line w =
     (if line = [] then (None, w)
      else
        (let tokens = tokenize [] line in
         if length tokens < 6 then (None, w)
         else
           (let socketAddr = (if isSocketAddr (tokens ! 0) then tokens ! 0 else []);
                offset = (if isSocketAddr (tokens ! 0) then 1 else 0 :: nat)
            in
            if length tokens < offset + 6 then (None, w)
            else
              (let localAddr = tokens ! (offset + 3);
                   foreignAddr = tokens ! (offset + 4);
                   st = tokens ! (offset + 5)
               in
               case rfind localAddr (CHR ''.'') of
                 None \<Rightarrow> (None, w)
               | Some lastDot \<Rightarrow>
                   (let localPortStr = substr_from localAddr (lastDot + 1);
                        localIp = substr_to localAddr lastDot
                    in
                    if portMismatch pf localPortStr port \<and>
                       (case rfind foreignAddr (CHR ''.'') of
                          Some foreignLastDot \<Rightarrow>
                            portMismatch pf (substr_from foreignAddr (foreignLastDot + 1)) port
                        | None \<Rightarrow> True)
                    then (None, w)
                    else
                      (let info = \<lparr>protocol = proto, localAddress = localIp,
                                     localPort = localPortStr,
                                     remoteAddress =
                                       (case rfind foreignAddr (CHR ''.'') of
                                          Some foreignLastDot \<Rightarrow> substr_to foreignAddr foreignLastDot
                                        | None \<Rightarrow> foreignAddr),
                                     remotePort =
                                       (case rfind foreignAddr (CHR ''.'') of
                                          Some foreignLastDot \<Rightarrow>
                                            substr_from foreignAddr (foreignLastDot + 1)
                                        | None \<Rightarrow> ''*''),
                                     state = st, pid = 0, processName = [], user = []\<rparr>
                       in
                       if socketAddr \<noteq> [] then
                         (case findProcessForPort pf sh port proto info w of
                            (info', w') \<Rightarrow> (Some info', w'))
                       else (Some info, w)))))))"

fun parseNetstatLines :: "platform \<Rightarrow> 'w shell \<Rightarrow> 16 word \<Rightarrow> string \<Rightarrow> string list \<Rightarrow> ConnectionInfo list \<Rightarrow> 'w \<Rightarrow> ConnectionInfo list \<times> 'w" where
  "parseNetstatLines pf sh port proto [] connections w = (connections, w)"
| "parseNetstatLines pf sh port proto (line # rest) connections w =
     (case parseNetstatLine pf sh port proto line w of
        (None, w') \<Rightarrow> parseNetstatLines pf sh port proto rest connections w'
      | (Some info, w') \<Rightarrow> parseNetstatLines pf sh port proto rest (connections @ [info]) w')"

definition parseNetstatOutput :: "platform \<Rightarrow> 'w shell \<Rightarrow> string \<Rightarrow> 16 word \<Rightarrow> string \<Rightarrow> ConnectionInfo list \<Rightarrow> 'w \<Rightarrow> ConnectionInfo list \<times> 'w" where
  "parseNetstatOutput pf sh output port proto connections w =
     parseNetstatLines pf sh port proto (getlines [] output) connections w"

text \<open>
  \<open>collectTcpConnections\<close> and \<open>collectUdpConnections\<close>: the flag returned, the
  vector \<open>connections\<close> afterwards, and the next state of the system.
\<close>

definition collectTcpConnections :: "platform \<Rightarrow> 'w shell \<Rightarrow> 16 word \<Rightarrow> ConnectionInfo list \<Rightarrow> 'w \<Rightarrow> (bool \<times> ConnectionInfo list) \<times> 'w" where
  "collectTcpConnections pf sh port connections w =
     (case executeCommand sh ''netstat -Aan -f inet 2>/dev/null | grep tcp'' [] w of
        ((ok1, output1), w1) \<Rightarrow>
          (case (if ok1 then ((True, output1), w1)
                 else executeCommand sh ''netstat -an -f inet 2>/dev/null | grep tcp'' output1 w1) of
             ((ok2, output2), w2) \<Rightarrow>
               if \<not> ok2 then ((False, connections), w2)
               else
                 (case parseNetstatOutput pf sh output2 port ''tcp'' connections w2 of
                    (connections3, w3) \<Rightarrow>
                      (case executeCommand sh ''netstat -Aan -f inet6 2>/dev/null | grep tcp''
                              output2 w3 of
                         ((ok4, output4), w4) \<Rightarrow>
                           if ok4 then
                             (case parseNetstatOutput pf sh output4 port ''tcp6'' connections3 w4 of
                                (connections5, w5) \<Rightarrow> ((True, connections5), w5))
                           else ((True, connections3), w4)))))"

definition collectUdpConnections :: "platform \<Rightarrow> 'w shell \<Rightarrow> 16 word \<Rightarrow> ConnectionInfo list \<Rightarrow> 'w \<Rightarrow> (bool \<times> ConnectionInfo list) \<times> 'w" where
  "collectUdpConnections pf sh port connections w =
     (case executeCommand sh ''netstat -Aan -f inet 2>/dev/null | grep udp'' [] w of
        ((ok1, output1), w1) \<Rightarrow>
          (case (if ok1 then ((True, output1), w1)
                 else executeCommand sh ''netstat -an -f inet 2>/dev/null | grep udp'' output1 w1) of
             ((ok2, output2), w2) \<Rightarrow>
               if \<not> ok2 then ((False, connections), w2)
               else
                 (case parseNetstatOutput pf sh output2 port ''udp'' connections w2 of
                    (connections3, w3) \<Rightarrow>
                      (case executeCommand sh ''netstat -Aan -f inet6 2>/dev/null | grep udp''
                              output2 w3 of
                         ((ok4, output4), w4) \<Rightarrow>
                           if ok4 then
                             (case parseNetstatOutput pf sh output4 port ''udp6'' connections3 w4 of
                                (connections5, w5) \<Rightarrow> ((True, connections5), w5))
                           else ((True, connections3), w4)))))"

text \<open>
  \<open>PortCollector::collect\<close> in its three parts. \<open>collectConnections\<close> is the
  vector \<open>connections\<close> after the two protocol passes (the flags the passes
  return are not read).
\<close>

definition collectConnections :: "platform \<Rightarrow> 'w shell \<Rightarrow> Protocol \<Rightarrow> 16 word \<Rightarrow> 'w \<Rightarrow> ConnectionInfo list \<times> 'w" where
  "collectConnections pf sh m_protocol port w =
     (case (if m_protocol = TCP \<or> m_protocol = Both
            then (case collectTcpConnections pf sh port [] w of ((_, cs), w1) \<Rightarrow> (cs, w1))
            else ([], w)) of
        (connections1, w1) \<Rightarrow>
          if m_protocol = UDP \<or> m_protocol = Both
          then (case collectUdpConnections pf sh port connections1 w1 of
                  ((_, cs), w2) \<Rightarrow> (cs, w2))
          else (connections1, w1))"

text \<open>
  The loop over \<open>connections\<close>, with the counter \<open>connIndex\<close>, an \<open>int\<close> of 32
  bits. \<open>connIndex++\<close> past \<open>INT_MAX\<close> is undefined in C++; here it wraps around,
  as the two's complement addition does.
\<close>

definition as_int32 :: "int \<Rightarrow> int" where
  "as_int32 v = signed_take_bit 31 v"

fun addConnections :: "int \<Rightarrow> ConnectionInfo list \<Rightarrow> MetadataResult \<Rightarrow> MetadataResult" where
  "addConnections connIndex [] result = result"
| "addConnections connIndex (conn # rest) result =
     (let pfx = ''connection_'' @ show_int connIndex @ ''_'';
          r1 = addAttribute (pfx @ ''protocol'') (protocol conn) result;
          r2 = addAttribute (pfx @ ''local_address'') (localAddress conn) r1;
          r3 = addAttribute (pfx @ ''local_port'') (localPort conn) r2;
          r4 = addAttribute (pfx @ ''remote_address'') (remoteAddress conn) r3;
          r5 = addAttribute (pfx @ ''remote_port'') (remotePort conn) r4;
          r6 = addAttribute (pfx @ ''state'') (state conn) r5;
          r7 = (if pid conn > 0 then addAttribute (pfx @ ''pid'') (show_int (pid conn)) r6
                else r6);
          r8 = (if processName conn \<noteq> [] then addAttribute (pfx @ ''process'') (processName conn) r7
                else r7);
          r9 = (if user conn \<noteq> [] then addAttribute (pfx @ ''user'') (user conn) r8 else r8)
      in addConnections (as_int32 (connIndex + 1)) rest r9)"

definition assembleResult :: "string \<Rightarrow> ConnectionInfo list \<Rightarrow> MetadataResult" where
  "assembleResult ident connections =
     (let result = MetadataResult0\<lparr>type := ''port'', identifier' := ident\<rparr> in
      if connections = [] then
        addAttribute ''port'' ident
          (addAttribute ''status'' ''no_connections_found'' (result\<lparr>success := True\<rparr>))
      else
        addConnections 0 connections
          (addAttribute_int64 ''num_connections'' (int (length connections))
             (addAttribute ''port'' ident (result\<lparr>success := True\<rparr>))))"

definition PortCollector_collect :: "platform \<Rightarrow> 'w shell \<Rightarrow> Protocol \<Rightarrow> string \<Rightarrow> 'w \<Rightarrow> MetadataResult \<times> 'w" where
  "PortCollector_collect pf sh m_protocol ident w =
     (case parsePort pf ident of
        None \<Rightarrow> (createErrorResult ident (''Invalid port number: '' @ ident), w)
      | Some port \<Rightarrow>
          (case collectConnections pf sh m_protocol port w of
             (connections, w') \<Rightarrow> (assembleResult ident connections, w')))"

section \<open>file_collector.cpp\<close>

text \<open>
  The fields of \<open>struct stat64\<close> that \<open>collectStats\<close> reads; \<open>mode_t\<close> is an
  unsigned 32-bit integer.
\<close>

record stat64 =
  st_mode :: "32 word"
  st_size :: int
  st_dev :: int
  st_ino :: int
  st_nlink :: int
  st_uid :: int
  st_gid :: int
  st_atime :: int
  st_mtime :: int
  st_ctime :: int
  st_blksize :: int
  st_blocks :: int
  st_rdev :: int

text \<open>
  The constants of \<open><sys/stat.h>\<close>, which the repository includes and does not
  define: the permission bits have the values POSIX fixes (octal 4000, 2000,
  1000, 400, ..., 1), the file-type bits those of AIX and Linux (mask octal
  170000).
\<close>

definition S_ISUID :: "32 word" where "S_ISUID = 0x800"
definition S_ISGID :: "32 word" where "S_ISGID = 0x400"
definition S_ISVTX :: "32 word" where "S_ISVTX = 0x200"
definition S_IRUSR :: "32 word" where "S_IRUSR = 0x100"
definition S_IWUSR :: "32 word" where "S_IWUSR = 0x80"
definition S_IXUSR :: "32 word" where "S_IXUSR = 0x40"
definition S_IRGRP :: "32 word" where "S_IRGRP = 0x20"
definition S_IWGRP :: "32 word" where "S_IWGRP = 0x10"
definition S_IXGRP :: "32 word" where "S_IXGRP = 0x8"
definition S_IROTH :: "32 word" where "S_IROTH = 0x4"
definition S_IWOTH :: "32 word" where "S_IWOTH = 0x2"
definition S_IXOTH :: "32 word" where "S_IXOTH = 0x1"

definition S_IFMT :: "32 word" where "S_IFMT = 0xF000"
definition S_IFSOCK :: "32 word" where "S_IFSOCK = 0xC000"
definition S_IFLNK :: "32 word" where "S_IFLNK = 0xA000"
definition S_IFREG :: "32 word" where "S_IFREG = 0x8000"
definition S_IFBLK :: "32 word" where "S_IFBLK = 0x6000"
definition S_IFDIR :: "32 word" where "S_IFDIR = 0x4000"
definition S_IFCHR :: "32 word" where "S_IFCHR = 0x2000"
definition S_IFIFO :: "32 word" where "S_IFIFO = 0x1000"

definition S_ISREG :: "32 word \<Rightarrow> bool" where "S_ISREG m = (m AND S_IFMT = S_IFREG)"
definition S_ISDIR :: "32 word \<Rightarrow> bool" where "S_ISDIR m = (m AND S_IFMT = S_IFDIR)"
definition S_ISLNK :: "32 word \<Rightarrow> bool" where "S_ISLNK m = (m AND S_IFMT = S_IFLNK)"
definition S_ISBLK :: "32 word \<Rightarrow> bool" where "S_ISBLK m = (m AND S_IFMT = S_IFBLK)"
definition S_ISCHR :: "32 word \<Rightarrow> bool" where "S_ISCHR m = (m AND S_IFMT = S_IFCHR)"
definition S_ISFIFO :: "32 word \<Rightarrow> bool" where "S_ISFIFO m = (m AND S_IFMT = S_IFIFO)"
definition S_ISSOCK :: "32 word \<Rightarrow> bool" where "S_ISSOCK m = (m AND S_IFMT = S_IFSOCK)"

text \<open>
  The operating system as \<open>FileCollector\<close> sees it during one call:
  \<open>lstat64\<close> (the text of \<open>strerror(errno)\<close> when it fails), \<open>stat64\<close>,
  \<open>readlink\<close> (the bytes put in the buffer, \<open>None\<close> for \<open>-1\<close>), \<open>getpwuid\<close>
  and \<open>getgrgid\<close> (the name), \<open>access(path, mode) == 0\<close>, \<open>localtime\<close> with
  \<open>strftime\<close> (the buffer, \<open>None\<close> for a null \<open>tm\<close>), and the macros
  \<open>major\<close> and \<open>minor\<close>.
\<close>

datatype access_mode = R_OK | W_OK | X_OK

record file_os =
  os_lstat64 :: "string \<Rightarrow> string + stat64"
  os_stat64 :: "string \<Rightarrow> stat64 option"
  os_readlink :: "string \<Rightarrow> string option"
  os_getpwuid :: "int \<Rightarrow> string option"
  os_getgrgid :: "int \<Rightarrow> string option"
  os_access :: "string \<Rightarrow> access_mode \<Rightarrow> bool"
  os_strftime :: "int \<Rightarrow> string option"
  os_major :: "int \<Rightarrow> int"
  os_minor :: "int \<Rightarrow> int"

definition fileTypeToString :: "32 word \<Rightarrow> string" where
  "fileTypeToString mode =
     (if S_ISREG mode then ''regular''
      else if S_ISDIR mode then ''directory''
      else if S_ISLNK mode then ''symlink''
      else if S_ISBLK mode then ''block_device''
      else if S_ISCHR mode then ''character_device''
      else if S_ISFIFO mode then ''fifo''
      else if S_ISSOCK mode then ''socket''
      else ''unknown'')"

text \<open>
  \<open>modeToSymbolic\<close> fills \<open>char symbolic[10]\<close> cell by cell and returns the C
  string in it. The array is not initialised; every cell is assigned.
\<close>

definition modeToSymbolic :: "32 word \<Rightarrow> string" where
  "modeToSymbolic mode =
     (let symbolic = replicate 10 (CHR 0x00);
          symbolic = symbolic[0 := if mode AND S_IRUSR \<noteq> 0 then CHR ''r'' else CHR ''-''];
          symbolic = symbolic[1 := if mode AND S_IWUSR \<noteq> 0 then CHR ''w'' else CHR ''-''];
          symbolic = (if mode AND S_ISUID \<noteq> 0
                      then symbolic[2 := if mode AND S_IXUSR \<noteq> 0 then CHR ''s'' else CHR ''S'']
                      else symbolic[2 := if mode AND S_IXUSR \<noteq> 0 then CHR ''x'' else CHR ''-'']);
          symbolic = symbolic[3 := if mode AND S_IRGRP \<noteq> 0 then CHR ''r'' else CHR ''-''];
          symbolic = symbolic[4 := if mode AND S_IWGRP \<noteq> 0 then CHR ''w'' else CHR ''-''];
          symbolic = (if mode AND S_ISGID \<noteq> 0
                      then symbolic[5 := if mode AND S_IXGRP \<noteq> 0 then CHR ''s'' else CHR ''S'']
                      else symbolic[5 := if mode AND S_IXGRP \<noteq> 0 then CHR ''x'' else CHR ''-'']);
          symbolic = symbolic[6 := if mode AND S_IROTH \<noteq> 0 then CHR ''r'' else CHR ''-''];
          symbolic = symbolic[7 := if mode AND S_IWOTH \<noteq> 0 then CHR ''w'' else CHR ''-''];
          symbolic = (if mode AND S_ISVTX \<noteq> 0
                      then symbolic[8 := if mode AND S_IXOTH \<noteq> 0 then CHR ''t'' else CHR ''T'']
                      else symbolic[8 := if mode AND S_IXOTH \<noteq> 0 then CHR ''x'' else CHR ''-'']);
          symbolic = symbolic[9 := CHR 0x00]
      in c_str symbolic)"

definition timeToString :: "file_os \<Rightarrow> int \<Rightarrow> string" where
  "timeToString os timeVal =
     (case os_strftime os timeVal of None \<Rightarrow> ''unknown'' | Some buffer \<Rightarrow> c_str buffer)"

definition collectSymlinkInfo :: "file_os \<Rightarrow> string \<Rightarrow> MetadataResult \<Rightarrow> MetadataResult" where
  "collectSymlinkInfo os path result =
     (let r1 = addAttribute ''is_symlink'' ''true'' result in
      case os_readlink os (c_str path) of
        None \<Rightarrow> addAttribute ''symlink_target'' ''unreadable'' r1
      | Some [] \<Rightarrow> addAttribute ''symlink_target'' ''unreadable'' r1
      | Some (c # cs) \<Rightarrow>
          (let r2 = addAttribute ''symlink_target'' (c_str (c # cs)) r1 in
           if c = CHR ''/'' then addAttribute ''symlink_type'' ''absolute'' r2
           else addAttribute ''symlink_type'' ''relative'' r2))"

definition collectOwnership :: "file_os \<Rightarrow> stat64 \<Rightarrow> MetadataResult \<Rightarrow> MetadataResult" where
  "collectOwnership os statBuf result =
     (let r1 = addAttribute_int64 ''uid'' (st_uid statBuf) result;
          r2 = (case os_getpwuid os (st_uid statBuf) of
                  Some pw_name \<Rightarrow> addAttribute ''owner'' (c_str pw_name) r1
                | None \<Rightarrow> addAttribute ''owner'' ''unknown'' r1);
          r3 = addAttribute_int64 ''gid'' (st_gid statBuf) r2
      in case os_getgrgid os (st_gid statBuf) of
           Some gr_name \<Rightarrow> addAttribute ''group'' (c_str gr_name) r3
         | None \<Rightarrow> addAttribute ''group'' ''unknown'' r3)"

definition collectAccessInfo :: "file_os \<Rightarrow> string \<Rightarrow> MetadataResult \<Rightarrow> MetadataResult" where
  "collectAccessInfo os path result =
     (let readable = os_access os (c_str path) R_OK;
          writable = os_access os (c_str path) W_OK;
          executable = os_access os (c_str path) X_OK;
          r1 = addAttribute ''current_user_readable'' (if readable then ''true'' else ''false'') result;
          r2 = addAttribute ''current_user_writable'' (if writable then ''true'' else ''false'') r1
      in addAttribute ''current_user_executable'' (if executable then ''true'' else ''false'') r2)"

text \<open>
  The part of \<open>collectStats\<close> after the two \<open>stat\<close> calls: \<open>lstatBuf\<close> is the
  path's own record, \<open>statBuf\<close> the one the attributes are read from.
\<close>

definition emitStats :: "file_os \<Rightarrow> stat64 \<Rightarrow> stat64 \<Rightarrow> MetadataResult \<Rightarrow> MetadataResult" where
  "emitStats os lstatBuf statBuf result =
     (let r1 = addAttribute ''type'' (fileTypeToString (st_mode lstatBuf)) result;
          r2 = addAttribute_uint64 ''size'' (st_size statBuf) r1;
          r3 = addAttribute_uint64 ''device'' (st_dev statBuf) r2;
          r4 = addAttribute_uint64 ''inode'' (st_ino statBuf) r3;
          r5 = addAttribute_uint64 ''nlink'' (st_nlink statBuf) r4;
          r6 = addAttribute ''mode_octal''
                 (''0'' @ show_oct (unat (st_mode statBuf AND 0xFFF))) r5;
          r7 = addAttribute ''mode_symbolic'' (modeToSymbolic (st_mode statBuf)) r6;
          r8 = (if st_mode statBuf AND S_ISUID \<noteq> 0 then addAttribute ''setuid'' ''true'' r7 else r7);
          r9 = (if st_mode statBuf AND S_ISGID \<noteq> 0 then addAttribute ''setgid'' ''true'' r8 else r8);
          r10 = (if st_mode statBuf AND S_ISVTX \<noteq> 0 then addAttribute ''sticky'' ''true'' r9 else r9);
          r11 = collectOwnership os statBuf r10;
          r12 = addAttribute ''access_time'' (timeToString os (st_atime statBuf)) r11;
          r13 = addAttribute ''modify_time'' (timeToString os (st_mtime statBuf)) r12;
          r14 = addAttribute ''change_time'' (timeToString os (st_ctime statBuf)) r13;
          r15 = addAttribute_int64 ''atime_epoch'' (st_atime statBuf) r14;
          r16 = addAttribute_int64 ''mtime_epoch'' (st_mtime statBuf) r15;
          r17 = addAttribute_int64 ''ctime_epoch'' (st_ctime statBuf) r16;
          r18 = addAttribute_int64 ''block_size'' (st_blksize statBuf) r17;
          r19 = addAttribute_int64 ''blocks'' (st_blocks statBuf) r18
      in if S_ISBLK (st_mode statBuf) \<or> S_ISCHR (st_mode statBuf) then
           addAttribute_int64 ''rdev_minor'' (os_minor os (st_rdev statBuf))
             (addAttribute_int64 ''rdev_major'' (os_major os (st_rdev statBuf)) r19)
         else r19)"

definition collectStats :: "file_os \<Rightarrow> string \<Rightarrow> MetadataResult \<Rightarrow> bool \<times> MetadataResult" where
  "collectStats os path result =
     (case os_lstat64 os (c_str path) of
        Inl err \<Rightarrow>
          (False,
           result\<lparr>success := False,
                  errorMessage :=
                    ''Cannot stat file '' @ [CHR 0x27] @ path @ [CHR 0x27] @ '': '' @ err\<rparr>)
      | Inr lstatBuf \<Rightarrow>
          if S_ISLNK (st_mode lstatBuf) then
            (case os_stat64 os (c_str path) of
               None \<Rightarrow>
                 (True,
                  emitStats os lstatBuf lstatBuf
                    (collectSymlinkInfo os path (addAttribute ''symlink_broken'' ''true'' result)))
             | Some statBuf \<Rightarrow>
                 (True, emitStats os lstatBuf statBuf (collectSymlinkInfo os path result)))
          else (True, emitStats os lstatBuf lstatBuf result))"

definition FileCollector_collect :: "file_os \<Rightarrow> string \<Rightarrow> MetadataResult" where
  "FileCollector_collect os ident =
     (let result = MetadataResult0\<lparr>type := ''file'', identifier' := ident\<rparr> in
      if ident = [] then createErrorResult ident ''Empty file path''
      else
        (case collectStats os ident result of
           (False, r) \<Rightarrow> r
         | (True, r) \<Rightarrow> collectAccessInfo os ident (r\<lparr>success := True\<rparr>)))"

section \<open>process_collector.cpp\<close>

text \<open>
  The sub-collections of \<open>ProcessCollector\<close> query the process table and
  \<open>/proc\<close>, and do nothing to the result but append attributes. Each is given
  by the attributes it appends for a PID; \<open>collectBasicInfo\<close> may also fail
  (\<open>None\<close>), and then it appends nothing.
\<close>

record process_os =
  basicInfo :: "int \<Rightarrow> MetadataAttribute list option"
  executablePath :: "int \<Rightarrow> MetadataAttribute list"
  workingDirectory :: "int \<Rightarrow> MetadataAttribute list"
  commandLine :: "int \<Rightarrow> MetadataAttribute list"
  credentials :: "int \<Rightarrow> MetadataAttribute list"
  openFiles :: "int \<Rightarrow> MetadataAttribute list"
  wparInfo :: "int \<Rightarrow> MetadataAttribute list"

definition append_attributes :: "MetadataAttribute list \<Rightarrow> MetadataResult \<Rightarrow> MetadataResult" where
  "append_attributes as result = result\<lparr>attributes := attributes result @ as\<rparr>"

definition parsePid :: "platform \<Rightarrow> string \<Rightarrow> int option" where
  "parsePid pf ident =
     (case strtol pf (c_str ident) of
        (v, endPtr) \<Rightarrow>
          if endPtr = 0 \<or> deref (c_str ident) endPtr \<noteq> CHR 0x00 then None
          else if v \<le> 0 \<or> v > INT32_MAX then None
          else Some (as_pid_t pf v))"

definition collectBasicInfo :: "process_os \<Rightarrow> int \<Rightarrow> MetadataResult \<Rightarrow> bool \<times> MetadataResult" where
  "collectBasicInfo os p result =
     (case basicInfo os p of
        None \<Rightarrow> (False, result)
      | Some as \<Rightarrow> (True, append_attributes as result))"

definition ProcessCollector_collect :: "platform \<Rightarrow> process_os \<Rightarrow> string \<Rightarrow> MetadataResult" where
  "ProcessCollector_collect pf os ident =
     (let result = MetadataResult0\<lparr>type := ''process'', identifier' := ident\<rparr> in
      case parsePid pf ident of
        None \<Rightarrow> createErrorResult ident (''Invalid PID format: '' @ ident)
      | Some p \<Rightarrow>
          (case collectBasicInfo os p result of
             (False, r) \<Rightarrow>
               createErrorResult ident (''Process not found or access denied for PID: '' @ ident)
           | (True, r) \<Rightarrow>
               (let r1 = r\<lparr>success := True\<rparr>;
                    r2 = append_attributes (executablePath os p) r1;
                    r3 = append_attributes (workingDirectory os p) r2;
                    r4 = append_attributes (commandLine os p) r3;
                    r5 = append_attributes (credentials os p) r4;
                    r6 = append_attributes (openFiles os p) r5
                in append_attributes (wparInfo os p) r6)))"

section \<open>The specification's notions\<close>

text \<open>
  A whole string read as a base-10 integer: optional white space, an optional
  sign, one or more decimal digits and nothing after them.
\<close>

definition decimal_integer :: "string \<Rightarrow> int option" where
  "decimal_integer s =
     (case dropWhile isspace s of
        [] \<Rightarrow> None
      | c # r \<Rightarrow>
          if c = CHR ''-'' then
            (if r \<noteq> [] \<and> list_all isdigit r then Some (- dec_value r) else None)
          else if c = CHR ''+'' then
            (if r \<noteq> [] \<and> list_all isdigit r then Some (dec_value r) else None)
          else if list_all isdigit (c # r) then Some (dec_value (c # r))
          else None)"

text \<open>A port identifier is an integer in [1,65535].\<close>

definition port_identifier_ok :: "string \<Rightarrow> bool" where
  "port_identifier_ok ident =
     (case decimal_integer (c_str ident) of
        None \<Rightarrow> False
      | Some v \<Rightarrow> 1 \<le> v \<and> v \<le> 65535)"


text \<open>The fields of a connection record that come from the netstat line.\<close>

definition netstat_fields :: "ConnectionInfo \<Rightarrow> string \<times> string \<times> string \<times> string \<times> string \<times> string" where
  "netstat_fields c =
     (protocol c, localAddress c, localPort c, remoteAddress c, remotePort c, state c)"

text \<open>
  The local-address, foreign-address and state columns of a netstat line: the
  fourth, fifth and sixth token, counted after the socket address when the
  line starts with one. A blank line and a line with too few tokens have none.
\<close>

definition netstat_columns :: "string \<Rightarrow> (string \<times> string \<times> string) option" where
  "netstat_columns line =
     (let tokens = tokenize [] line;
          offset = (case tokens of [] \<Rightarrow> (0::nat) | t # _ \<Rightarrow> if isSocketAddr t then 1 else 0)
      in if length tokens < offset + 6 then None
         else Some (tokens ! (offset + 3), tokens ! (offset + 4), tokens ! (offset + 5)))"

text \<open>
  The port token of an address token, the part after its last dot, and that
  token read again as a base-10 integer.
\<close>

definition port_token :: "string \<Rightarrow> string option" where
  "port_token addr =
     (case rfind addr (CHR ''.'') of None \<Rightarrow> None | Some i \<Rightarrow> Some (drop (i + 1) addr))"

definition port_number :: "string \<Rightarrow> int option" where
  "port_number addr =
     (case port_token addr of None \<Rightarrow> None | Some t \<Rightarrow> decimal_integer (c_str t))"







text \<open>The six netstat commands of the two protocol passes.\<close>

definition netstat_commands :: "string list" where
  "netstat_commands =
     [''netstat -Aan -f inet 2>/dev/null | grep tcp'',
      ''netstat -an -f inet 2>/dev/null | grep tcp'',
      ''netstat -Aan -f inet6 2>/dev/null | grep tcp'',
      ''netstat -Aan -f inet 2>/dev/null | grep udp'',
      ''netstat -an -f inet 2>/dev/null | grep udp'',
      ''netstat -Aan -f inet6 2>/dev/null | grep udp'']"

text \<open>
  The characters of the symbolic notation: a read or write position shows its
  letter when the bit is set; an execute position shows \<open>x\<close> when only its bit
  is set, and the lower-case or upper-case special letter when the special bit
  is set with or without it.
\<close>

definition perm_char :: "32 word \<Rightarrow> 32 word \<Rightarrow> char \<Rightarrow> char" where
  "perm_char mode b c = (if mode AND b \<noteq> 0 then c else CHR ''-'')"

definition exec_char :: "32 word \<Rightarrow> 32 word \<Rightarrow> 32 word \<Rightarrow> char \<Rightarrow> char \<Rightarrow> char" where
  "exec_char mode special b lower upper =
     (if mode AND special \<noteq> 0 then (if mode AND b \<noteq> 0 then lower else upper)
      else (if mode AND b \<noteq> 0 then CHR ''x'' else CHR ''-''))"

section \<open>Concrete systems\<close>

text \<open>AIX in its default 32-bit mode, and in 64-bit mode.\<close>

definition aix32 :: platform where
  "aix32 = \<lparr>defined_AIX = True, long_model = ILP32, pid_t_bits = 32\<rparr>"

definition aix64 :: platform where
  "aix64 = \<lparr>defined_AIX = True, long_model = LP64, pid_t_bits = 32\<rparr>"

text \<open>A system where no command can be started.\<close>

definition no_shell :: "unit shell" where
  "no_shell cmd w = (PopenNull, w)"

text \<open>A system with one listening socket on port 22, owned by \<open>sshd\<close>.\<close>

definition sshd_shell :: "unit shell" where
  "sshd_shell cmd w =
     (if cmd = ''netstat -Aan -f inet 2>/dev/null | grep tcp''
      then (PopenOutput (''f1000e0001891398 tcp4 0 0 *.22 *.* LISTEN'' @ [CHR 0x0A]) 0, w)
      else if cmd = ''lsof -i :22 -n -P 2>/dev/null | grep -i tcp''
      then (PopenOutput (''sshd 1234 root 3u IPv4 12345 0t0 TCP *:22 (LISTEN)'' @ [CHR 0x0A]) 0, w)
      else (PopenOutput [] 1, w))"

text \<open>The connection record of that socket.\<close>

definition sshd_connection :: ConnectionInfo where
  "sshd_connection =
     \<lparr>protocol = ''tcp'', localAddress = ''*'', localPort = ''22'', remoteAddress = ''*'',
      remotePort = ''*'', state = ''LISTEN'', pid = 1234, processName = ''sshd'',
      user = ''root''\<rparr>"

text \<open>
  A system with three sockets on port 22 and one on port 80: the \<open>sshd\<close> socket
  above, listed with the socket on port 80; the same port over IPv6, for which
  the \<open>lsof\<close> pipeline finds nothing; and a UDP socket that only the alternate
  form of the command lists, without a socket address and with a state column.
\<close>

definition port22_shell :: "unit shell" where
  "port22_shell cmd w =
     (if cmd = ''netstat -Aan -f inet 2>/dev/null | grep tcp''
      then (PopenOutput (''f1000e0001891398 tcp4 0 0 *.22 *.* LISTEN'' @ [CHR 0x0A] @
                         ''f1000e0001893398 tcp4 0 0 *.80 *.* LISTEN'' @ [CHR 0x0A]) 0, w)
      else if cmd = ''netstat -Aan -f inet6 2>/dev/null | grep tcp''
      then (PopenOutput (''f1000e0001892398 tcp6 0 0 *.22 *.* LISTEN'' @ [CHR 0x0A]) 0, w)
      else if cmd = ''netstat -an -f inet 2>/dev/null | grep udp''
      then (PopenOutput (''udp4 0 0 *.22 *.* IDLE'' @ [CHR 0x0A]) 0, w)
      else if cmd = ''lsof -i :22 -n -P 2>/dev/null | grep -i tcp''
      then (PopenOutput (''sshd 1234 root 3u IPv4 12345 0t0 TCP *:22 (LISTEN)'' @ [CHR 0x0A]) 0, w)
      else (PopenOutput [] 1, w))"

text \<open>The outcome of each command on that system, and its two other records.\<close>

definition port22_netstat :: "string \<Rightarrow> popen_result" where
  "port22_netstat cmd = fst (port22_shell cmd ())"



definition no_process :: process_os where
  "no_process =
     \<lparr>basicInfo = (\<lambda>p. None), executablePath = (\<lambda>p. []), workingDirectory = (\<lambda>p. []),
      commandLine = (\<lambda>p. []), credentials = (\<lambda>p. []), openFiles = (\<lambda>p. []),
      wparInfo = (\<lambda>p. [])\<rparr>"

definition passwd_stat :: stat64 where
  "passwd_stat =
     \<lparr>st_mode = 0x81A4, st_size = 1024, st_dev = 10, st_ino = 4242, st_nlink = 1,
      st_uid = 0, st_gid = 0, st_atime = 1700000000, st_mtime = 1700000000,
      st_ctime = 1700000000, st_blksize = 4096, st_blocks = 8, st_rdev = 0\<rparr>"

text \<open>A file system that holds the regular file \<open>/etc/passwd\<close>, mode 0644.\<close>

definition passwd_os :: file_os where
  "passwd_os =
     \<lparr>os_lstat64 = (\<lambda>p. if p = ''/etc/passwd'' then Inr passwd_stat
                         else Inl ''No such file or directory''),
      os_stat64 = (\<lambda>p. if p = ''/etc/passwd'' then Some passwd_stat else None),
      os_readlink = (\<lambda>p. None),
      os_getpwuid = (\<lambda>u. if u = 0 then Some ''root'' else None),
      os_getgrgid = (\<lambda>g. if g = 0 then Some ''system'' else None),
      os_access = (\<lambda>p m. m = R_OK),
      os_strftime = (\<lambda>t. Some ''2023-11-14T22:13:20''),
      os_major = (\<lambda>d. 0),
      os_minor = (\<lambda>d. 0)\<rparr>"

section \<open>Lemmas\<close>

subsection \<open>\<open>strtol\<close> and the whole-string reading\<close>

lemma LONG_MAX_eval:
  "LONG_MAX pf = (if long_model pf = ILP32 then 2147483647 else 9223372036854775807)"
  by (cases "long_model pf") (simp_all add: LONG_MAX_def long_bits_def)

lemma LONG_MIN_eval:
  "LONG_MIN pf = (if long_model pf = ILP32 then - 2147483648 else - 9223372036854775808)"
  by (cases "long_model pf") (simp_all add: LONG_MIN_def long_bits_def)

lemma c_str_no_NUL: "CHR 0x00 \<notin> set (c_str s)"
  by (auto simp: c_str_def dest: set_takeWhileD)

lemma deref_c_str: "deref (c_str s) e = CHR 0x00 \<longleftrightarrow> length (c_str s) \<le> e"
  using c_str_no_NUL [of s] by (auto simp: deref_def dest: nth_mem)

lemma digit_value_nonneg: "isdigit c \<Longrightarrow> 0 \<le> digit_value c"
  by (auto simp: isdigit_def digit_value_def)

lemma foldl_dec_nonneg:
  "list_all isdigit ds \<Longrightarrow> 0 \<le> a \<Longrightarrow> 0 \<le> foldl (\<lambda>acc c. 10 * acc + digit_value c) a ds"
proof (induction ds arbitrary: a)
  case Nil
  then show ?case by simp
next
  case (Cons d ds)
  then have "0 \<le> 10 * a + digit_value d"
    using digit_value_nonneg [of d] by simp
  with Cons show ?case by simp
qed

lemma dec_value_nonneg: "list_all isdigit ds \<Longrightarrow> 0 \<le> dec_value ds"
  by (simp add: dec_value_def foldl_dec_nonneg)

lemma length_takeWhile_full: "length (takeWhile P xs) = length xs \<longleftrightarrow> list_all P xs"
  by (induction xs) (auto simp: list_all_iff)

lemma strtol_alt:
  "strtol pf s =
     (case dropWhile isspace s of
        [] \<Rightarrow> (0, 0)
      | c # r \<Rightarrow>
          if c = CHR ''-'' then
            (if takeWhile isdigit r = [] then (0, 0)
             else (max (LONG_MIN pf) (- dec_value (takeWhile isdigit r)),
                   length (takeWhile isspace s) + 1 + length (takeWhile isdigit r)))
          else if c = CHR ''+'' then
            (if takeWhile isdigit r = [] then (0, 0)
             else (min (LONG_MAX pf) (dec_value (takeWhile isdigit r)),
                   length (takeWhile isspace s) + 1 + length (takeWhile isdigit r)))
          else
            (if takeWhile isdigit (c # r) = [] then (0, 0)
             else (min (LONG_MAX pf) (dec_value (takeWhile isdigit (c # r))),
                   length (takeWhile isspace s) + length (takeWhile isdigit (c # r)))))"
proof -
  have body: "drop (length (takeWhile isspace s)) s = dropWhile isspace s"
    by (simp add: dropWhile_eq_drop)
  show ?thesis
  proof (cases "dropWhile isspace s")
    case Nil
    show ?thesis
      unfolding strtol_def Let_def body Nil by simp
  next
    case (Cons c r)
    show ?thesis
      unfolding strtol_def Let_def body Cons by simp
  qed
qed

lemma length_split_space: "length s = length (takeWhile isspace s) + length (dropWhile isspace s)"
  by (metis takeWhile_dropWhile_id length_append)

lemma takeWhile_short:
  "\<not> list_all P xs \<Longrightarrow> length (takeWhile P xs) < length xs"
  using length_takeWhile_full [of P xs] length_takeWhile_le [of P xs]
  by (simp add: order_le_less)

lemma strtol_decimal_Some:
  assumes "decimal_integer s = Some v"
  shows "strtol pf s = (if v < 0 then max (LONG_MIN pf) v else min (LONG_MAX pf) v, length s) \<and> s \<noteq> []"
proof -
  from assms obtain c r where cr: "dropWhile isspace s = c # r"
    by (auto simp: decimal_integer_def split: list.splits)
  then have ne: "s \<noteq> []" by auto
  have len: "length s = length (takeWhile isspace s) + Suc (length r)"
    using length_split_space [of s] cr by simp
  consider (minus) "c = CHR ''-''" | (plus) "c = CHR ''+''"
    | (digit) "c \<noteq> CHR ''-''" "c \<noteq> CHR ''+''"
    by blast
  then show ?thesis
  proof cases
    case minus
    with assms cr have r: "r \<noteq> []" "list_all isdigit r" "v = - dec_value r"
      by (auto simp: decimal_integer_def split: if_splits)
    then have tw: "takeWhile isdigit r = r"
      by (simp add: list_all_iff)
    have "0 \<le> dec_value r" using r by (simp add: dec_value_nonneg)
    then have "(if v < 0 then max (LONG_MIN pf) v else min (LONG_MAX pf) v) = max (LONG_MIN pf) (- dec_value r)"
      using r by (auto simp: LONG_MIN_eval LONG_MAX_eval)
    then show ?thesis
      using minus r(1) ne len by (simp add: strtol_alt cr tw)
  next
    case plus
    with assms cr have r: "r \<noteq> []" "list_all isdigit r" "v = dec_value r"
      by (auto simp: decimal_integer_def split: if_splits)
    then have tw: "takeWhile isdigit r = r"
      by (simp add: list_all_iff)
    have "0 \<le> dec_value r" using r by (simp add: dec_value_nonneg)
    then have "(if v < 0 then max (LONG_MIN pf) v else min (LONG_MAX pf) v) = min (LONG_MAX pf) (dec_value r)"
      using r by auto
    then show ?thesis
      using plus r(1) ne len by (simp add: strtol_alt cr tw)
  next
    case digit
    with assms cr have r: "list_all isdigit (c # r)" "v = dec_value (c # r)"
      by (auto simp: decimal_integer_def split: if_splits)
    then have tw: "takeWhile isdigit (c # r) = c # r"
      by (simp add: list_all_iff)
    have "0 \<le> dec_value (c # r)" using r by (simp only: dec_value_nonneg)
    then have "(if v < 0 then max (LONG_MIN pf) v else min (LONG_MAX pf) v) = min (LONG_MAX pf) (dec_value (c # r))"
      using r by auto
    then show ?thesis
      using digit ne len by (simp add: strtol_alt cr tw del: takeWhile.simps)
  qed
qed

lemma strtol_decimal_None:
  assumes "decimal_integer s = None"
  shows "snd (strtol pf s) = 0 \<or> snd (strtol pf s) < length s"
proof (cases "dropWhile isspace s")
  case Nil
  show ?thesis by (simp add: strtol_alt Nil)
next
  case (Cons c r)
  have len: "length s = length (takeWhile isspace s) + Suc (length r)"
    using length_split_space [of s] Cons by simp
  show ?thesis
  proof (cases "c = CHR ''-'' \<or> c = CHR ''+''")
    case True
    with assms Cons have "r = [] \<or> \<not> list_all isdigit r"
      by (auto simp: decimal_integer_def split: if_splits)
    then show ?thesis
    proof
      assume "r = []"
      then show ?thesis using True by (auto simp: strtol_alt Cons)
    next
      assume "\<not> list_all isdigit r"
      from takeWhile_short [OF this] show ?thesis
        using True len by (auto simp: strtol_alt Cons)
    qed
  next
    case False
    with assms Cons have "\<not> list_all isdigit (c # r)"
      by (auto simp: decimal_integer_def split: if_splits)
    from takeWhile_short [OF this] show ?thesis
      using False Cons len by (simp add: strtol_alt del: takeWhile.simps)
  qed
qed

lemma parsePort_decimal:
  "parsePort pf ident =
     (case decimal_integer (c_str ident) of
        None \<Rightarrow> None
      | Some v \<Rightarrow> if 1 \<le> v \<and> v \<le> 65535 then Some (word_of_int v) else None)"
proof (cases "decimal_integer (c_str ident)")
  case None
  from strtol_decimal_None [OF this, where pf = pf] show ?thesis
    by (auto simp: parsePort_def None deref_c_str split: prod.splits)
next
  case (Some v)
  from strtol_decimal_Some [OF this, where pf = pf] show ?thesis
    by (auto simp: parsePort_def Some deref_c_str LONG_MIN_eval LONG_MAX_eval)
qed

lemma as_pid_t_id:
  assumes "32 \<le> pid_t_bits pf" "1 \<le> v" "v \<le> INT32_MAX"
  shows "as_pid_t pf v = v"
proof -
  have "(2::int) ^ 31 \<le> 2 ^ (pid_t_bits pf - 1)"
    using assms(1) by (intro power_increasing) auto
  with assms(2,3) have "- (2 ^ (pid_t_bits pf - 1)) \<le> v" "v < 2 ^ (pid_t_bits pf - 1)"
    by (auto simp: INT32_MAX_def)
  then show ?thesis
    unfolding as_pid_t_def by (rule signed_take_bit_int_eq_self)
qed

lemma parsePid_decimal:
  assumes "32 \<le> pid_t_bits pf"
  shows "parsePid pf ident =
     (case decimal_integer (c_str ident) of
        None \<Rightarrow> None
      | Some v \<Rightarrow>
          if 1 \<le> v \<and> (v \<le> INT32_MAX \<or> long_model pf = ILP32)
          then Some (min v INT32_MAX) else None)"
proof (cases "decimal_integer (c_str ident)")
  case None
  from strtol_decimal_None [OF this, where pf = pf] show ?thesis
    by (auto simp: parsePid_def None deref_c_str split: prod.splits)
next
  case (Some v)
  note st = strtol_decimal_Some [OF Some, where pf = pf]
  show ?thesis
  proof (cases "1 \<le> v")
    case False
    with st show ?thesis
      by (auto simp: parsePid_def Some deref_c_str LONG_MIN_eval LONG_MAX_eval)
  next
    case True
    then have pid: "as_pid_t pf (min v INT32_MAX) = min v INT32_MAX"
      using assms by (intro as_pid_t_id) (simp_all add: INT32_MAX_def)
    show ?thesis
    proof (cases "long_model pf")
      case ILP32
      define x where "x = min v INT32_MAX"
      have x: "1 \<le> x" "x \<le> INT32_MAX"
        using True by (simp_all add: x_def INT32_MAX_def)
      from ILP32 have "LONG_MAX pf = INT32_MAX"
        by (simp add: LONG_MAX_eval INT32_MAX_def)
      with True st have "strtol pf (c_str ident) = (x, length (c_str ident))"
        by (simp add: x_def min.commute)
      moreover have "as_pid_t pf x = x"
        using pid by (simp add: x_def)
      ultimately have "parsePid pf ident = Some x"
        using x st by (simp add: parsePid_def deref_c_str)
      with True ILP32 show ?thesis
        by (simp add: Some x_def)
    next
      case LP64
      show ?thesis
      proof (cases "v \<le> INT32_MAX")
        case le: True
        with True st LP64 have "strtol pf (c_str ident) = (v, length (c_str ident))"
          by (simp add: LONG_MAX_eval INT32_MAX_def)
        moreover from le have "min v INT32_MAX = v" by simp
        ultimately show ?thesis
          using True st pid LP64 le by (simp add: parsePid_def Some deref_c_str)
      next
        case gt: False
        with True st LP64 have "\<exists>x. strtol pf (c_str ident) = (x, length (c_str ident)) \<and> INT32_MAX < x"
          by (simp add: LONG_MAX_eval INT32_MAX_def)
        then show ?thesis
          using True st LP64 gt by (auto simp: parsePid_def Some deref_c_str)
      qed
    qed
  qed
qed

subsection \<open>The fields of an assembled result\<close>

lemma addAttribute_fields:
  "type (addAttribute n v r) = type r"
  "identifier' (addAttribute n v r) = identifier' r"
  "success (addAttribute n v r) = success r"
  "errorMessage (addAttribute n v r) = errorMessage r"
  "attributes (addAttribute n v r) = attributes r @ [\<lparr>name = n, vals = [v]\<rparr>]"
  by (simp_all add: addAttribute_def)



lemma addConnections_fields:
  "type (addConnections i cs r) = type r"
  "identifier' (addConnections i cs r) = identifier' r"
  "success (addConnections i cs r) = success r"
  "errorMessage (addConnections i cs r) = errorMessage r"
  by (induction cs arbitrary: i r; simp add: Let_def addAttribute_fields)+


lemma assembleResult_empty:
  "assembleResult ident [] =
     \<lparr>type = ''port'', identifier' = ident,
      attributes = [\<lparr>name = ''status'', vals = [''no_connections_found'']\<rparr>,
                    \<lparr>name = ''port'', vals = [ident]\<rparr>],
      success = True, errorMessage = []\<rparr>"
  by (simp add: assembleResult_def MetadataResult0_def addAttribute_def)



subsection \<open>The port test of a netstat line\<close>

lemma lsofLines_fields: "netstat_fields (lsofLines pf ls info) = netstat_fields info"
  by (induction ls) (simp_all add: netstat_fields_def Let_def split: prod.splits)

lemma findProcessForPort_fields:
  "netstat_fields (fst (findProcessForPort pf sh port proto info w)) = netstat_fields info"
  by (simp add: findProcessForPort_def lsofLines_fields Let_def split: prod.splits)
     (simp add: netstat_fields_def)

lemma strtol_zero_or_pos: "strtol pf s = (0, 0) \<or> 0 < snd (strtol pf s)"
proof (cases "dropWhile isspace s")
  case Nil
  show ?thesis by (simp add: strtol_alt Nil)
next
  case (Cons c r)
  show ?thesis by (simp add: strtol_alt Cons del: takeWhile.simps)
qed

lemma strtol_zero_offset: "snd (strtol pf s) = 0 \<Longrightarrow> fst (strtol pf s) = 0"
  using strtol_zero_or_pos [of pf s] by auto

lemma clamp_eq_small:
  fixes u v :: int
  assumes "0 \<le> u" "u < 65536"
  shows "(if v < 0 then max (LONG_MIN pf) v else min (LONG_MAX pf) v) = u \<longleftrightarrow> v = u"
  using assms by (auto simp: LONG_MIN_eval LONG_MAX_eval)

lemma portMismatch_iff:
  assumes "port \<noteq> 0"
  shows "portMismatch pf s port \<longleftrightarrow> decimal_integer (c_str s) \<noteq> Some (uint port)"
proof (cases "decimal_integer (c_str s)")
  case None
  from strtol_decimal_None [OF this, where pf = pf]
  have "snd (strtol pf (c_str s)) = 0 \<or> snd (strtol pf (c_str s)) < length (c_str s)" .
  then show ?thesis
  proof
    assume z: "snd (strtol pf (c_str s)) = 0"
    then have "fst (strtol pf (c_str s)) = 0" by (rule strtol_zero_offset)
    moreover have "uint port \<noteq> 0" using assms by (simp add: uint_0_iff)
    ultimately show ?thesis
      by (auto simp: portMismatch_def None split: prod.splits)
  next
    assume "snd (strtol pf (c_str s)) < length (c_str s)"
    then show ?thesis
      by (auto simp: portMismatch_def None deref_c_str split: prod.splits)
  qed
next
  case (Some v)
  have "uint port < 65536"
    using uint_bounded [of port] by simp
  then have "(if v < 0 then max (LONG_MIN pf) v else min (LONG_MAX pf) v) = uint port \<longleftrightarrow> v = uint port"
    by (intro clamp_eq_small) simp_all
  with strtol_decimal_Some [OF Some, where pf = pf] show ?thesis
    by (auto simp: portMismatch_def Some deref_c_str)
qed

lemma parseNetstatLine_kept:
  assumes "parseNetstatLine pf sh port proto line w = (Some c, w')"
  shows "protocol c = proto \<and>
         (port \<noteq> 0 \<longrightarrow>
            decimal_integer (c_str (localPort c)) = Some (uint port) \<or>
            decimal_integer (c_str (remotePort c)) = Some (uint port))"
proof -
  let ?tokens = "tokenize [] line"
  let ?offset = "if isSocketAddr (?tokens ! 0) then 1 else 0 :: nat"
  let ?localAddr = "?tokens ! (?offset + 3)"
  let ?foreignAddr = "?tokens ! (?offset + 4)"
  from assms obtain lastDot where ld: "rfind ?localAddr (CHR ''.'') = Some lastDot"
    by (auto simp: parseNetstatLine_def Let_def split: if_splits option.splits)
  let ?localPortStr = "substr_from ?localAddr (lastDot + 1)"
  let ?remotePort = "case rfind ?foreignAddr (CHR ''.'') of
                       Some foreignLastDot \<Rightarrow> substr_from ?foreignAddr (foreignLastDot + 1)
                     | None \<Rightarrow> ''*''"
  let ?info = "\<lparr>protocol = proto, localAddress = substr_to ?localAddr lastDot,
                localPort = ?localPortStr,
                remoteAddress = (case rfind ?foreignAddr (CHR ''.'') of
                                   Some foreignLastDot \<Rightarrow> substr_to ?foreignAddr foreignLastDot
                                 | None \<Rightarrow> ?foreignAddr),
                remotePort = ?remotePort,
                state = ?tokens ! (?offset + 5), pid = 0, processName = [], user = []\<rparr>"
  from assms ld have keep:
    "\<not> portMismatch pf ?localPortStr port \<or>
     (\<exists>fd. rfind ?foreignAddr (CHR ''.'') = Some fd \<and>
           \<not> portMismatch pf (substr_from ?foreignAddr (fd + 1)) port)"
    by (auto simp: parseNetstatLine_def Let_def split: if_splits option.splits)
  from assms ld have c: "c = ?info \<or> c = fst (findProcessForPort pf sh port proto ?info w)"
    by (auto simp: parseNetstatLine_def Let_def split: if_splits option.splits prod.splits)
  have "netstat_fields c = netstat_fields ?info"
    using c findProcessForPort_fields [of pf sh port proto ?info w] by auto
  then have f: "protocol c = proto" "localPort c = ?localPortStr" "remotePort c = ?remotePort"
    by (simp_all add: netstat_fields_def)
  show ?thesis
  proof (intro conjI impI)
    show "protocol c = proto" by (rule f)
  next
    assume nz: "port \<noteq> 0"
    from keep show "decimal_integer (c_str (localPort c)) = Some (uint port) \<or>
            decimal_integer (c_str (remotePort c)) = Some (uint port)"
    proof
      assume "\<not> portMismatch pf ?localPortStr port"
      then show ?thesis using portMismatch_iff [OF nz] f by simp
    next
      assume "\<exists>fd. rfind ?foreignAddr (CHR ''.'') = Some fd \<and>
           \<not> portMismatch pf (substr_from ?foreignAddr (fd + 1)) port"
      then obtain fd where fd: "rfind ?foreignAddr (CHR ''.'') = Some fd"
        "\<not> portMismatch pf (substr_from ?foreignAddr (fd + 1)) port" by blast
      then have "decimal_integer (c_str (remotePort c)) = Some (uint port)"
        using portMismatch_iff [OF nz] f by simp
      then show ?thesis ..
    qed
  qed
qed

subsection \<open>The \<open>type\<close> field\<close>

lemma addAttribute_int64_fields:
  "type (addAttribute_int64 n v r) = type r"
  "type (addAttribute_uint64 n v r) = type r"
  by (simp_all add: addAttribute_int64_def addAttribute_uint64_def addAttribute_fields)

lemma type_collectOwnership: "type (collectOwnership os st r) = type r"
  by (simp add: collectOwnership_def Let_def addAttribute_fields addAttribute_int64_fields
      split: option.splits)

lemma type_collectSymlinkInfo: "type (collectSymlinkInfo os path r) = type r"
  by (simp add: collectSymlinkInfo_def Let_def addAttribute_fields split: option.splits list.splits)

lemma type_emitStats: "type (emitStats os lst st r) = type r"
  by (simp add: emitStats_def Let_def addAttribute_fields addAttribute_int64_fields
      type_collectOwnership)

lemma type_collectStats: "type (snd (collectStats os path r)) = type r"
  by (simp add: collectStats_def type_emitStats type_collectSymlinkInfo addAttribute_fields
      split: sum.splits option.splits)

lemma type_collectAccessInfo: "type (collectAccessInfo os path r) = type r"
  by (simp add: collectAccessInfo_def Let_def addAttribute_fields)

lemma type_FileCollector_collect:
  "type (FileCollector_collect os ident) = (if ident = [] then [] else ''file'')"
proof (cases "collectStats os ident (MetadataResult0\<lparr>type := ''file'', identifier' := ident\<rparr>)")
  case (Pair ok r)
  then have "type r = ''file''"
    using type_collectStats [of os ident "MetadataResult0\<lparr>type := ''file'', identifier' := ident\<rparr>"]
    by simp
  then show ?thesis
    unfolding FileCollector_collect_def Let_def Pair
    by (cases ok) (simp_all add: createErrorResult_def MetadataResult0_def type_collectAccessInfo)
qed

lemma type_assembleResult: "type (assembleResult ident cs) = ''port''"
  by (simp add: assembleResult_def Let_def MetadataResult0_def addConnections_fields
      addAttribute_fields addAttribute_int64_def)

lemma type_PortCollector_collect:
  "type (fst (PortCollector_collect pf sh m ident w)) =
     (if parsePort pf ident = None then [] else ''port'')"
  by (simp add: PortCollector_collect_def createErrorResult_def MetadataResult0_def
      type_assembleResult split: option.splits prod.splits)

lemma type_ProcessCollector_collect:
  "type (ProcessCollector_collect pf os ident) =
     (case parsePid pf ident of
        None \<Rightarrow> []
      | Some p \<Rightarrow> if basicInfo os p = None then [] else ''process'')"
  by (simp add: ProcessCollector_collect_def Let_def createErrorResult_def MetadataResult0_def
      collectBasicInfo_def append_attributes_def split: option.splits)

lemma parsePort_examples: "parsePort pf ''abc'' = None" "parsePort pf ''0'' = None" "parsePort pf ''65536'' = None"
  "parsePort pf ''1'' = Some 1" "parsePort pf ''65535'' = Some 65535" "parsePort pf ''22'' = Some 22"
  by (simp_all add: parsePort_decimal decimal_integer_def c_str_def isspace_def isdigit_def
      dec_value_def digit_value_def)

subsection \<open>Identifiers and results\<close>

lemma decimal_integer_pids:
  "decimal_integer (c_str ''0'') = Some 0"
  "decimal_integer (c_str ''007'') = Some 7"
  "decimal_integer (c_str ''42'') = Some 42"
  "decimal_integer (c_str ''2147483647'') = Some 2147483647"
  "decimal_integer (c_str ''2147483648'') = Some 2147483648"
  "decimal_integer (c_str ''99999999999999999999'') = Some 99999999999999999999"
  "decimal_integer (c_str ''abc'') = None"
  "decimal_integer (c_str ''12x'') = None"
  by (simp_all add: decimal_integer_def c_str_def isspace_def isdigit_def dec_value_def
      digit_value_def)

lemma parsePid_examples:
  "32 \<le> pid_t_bits pf \<Longrightarrow> parsePid pf ''0'' = None"
  "32 \<le> pid_t_bits pf \<Longrightarrow> parsePid pf ''007'' = Some 7"
  "32 \<le> pid_t_bits pf \<Longrightarrow> parsePid pf ''2147483647'' = Some 2147483647"
  "32 \<le> pid_t_bits pf \<Longrightarrow> parsePid pf ''abc'' = None"
  "32 \<le> pid_t_bits pf \<Longrightarrow> parsePid pf ''12x'' = None"
  "32 \<le> pid_t_bits pf \<Longrightarrow> parsePid pf ''42'' = Some 42"
  by (simp_all add: parsePid_decimal decimal_integer_pids INT32_MAX_def)

lemma parsePid_above_maximum:
  "32 \<le> pid_t_bits pf \<Longrightarrow> long_model pf = LP64 \<Longrightarrow> parsePid pf ''2147483648'' = None"
  "32 \<le> pid_t_bits pf \<Longrightarrow> long_model pf = LP64 \<Longrightarrow>
     parsePid pf ''99999999999999999999'' = None"
  "32 \<le> pid_t_bits pf \<Longrightarrow> long_model pf = ILP32 \<Longrightarrow>
     parsePid pf ''2147483648'' = Some 2147483647"
  "32 \<le> pid_t_bits pf \<Longrightarrow> long_model pf = ILP32 \<Longrightarrow>
     parsePid pf ''99999999999999999999'' = Some 2147483647"
  by (simp_all add: parsePid_decimal decimal_integer_pids INT32_MAX_def)

lemma success_assembleResult: "success (assembleResult ident cs) = True"
  by (simp add: assembleResult_def Let_def MetadataResult0_def addConnections_fields
      addAttribute_fields addAttribute_int64_def)

lemma errorMessage_assembleResult: "errorMessage (assembleResult ident cs) = []"
  by (simp add: assembleResult_def Let_def MetadataResult0_def addConnections_fields
      addAttribute_fields addAttribute_int64_def)

lemma port_identifier_ok_parsePort: "parsePort pf ident = None \<longleftrightarrow> \<not> port_identifier_ok ident"
  by (simp add: port_identifier_ok_def parsePort_decimal split: option.splits)

lemma PortCollector_collect_Some:
  "parsePort pf ident = Some port \<Longrightarrow>
   PortCollector_collect pf sh m ident w =
     (case collectConnections pf sh m port w of (cs, w') \<Rightarrow> (assembleResult ident cs, w'))"
  by (simp add: PortCollector_collect_def)

lemma PortCollector_collect_None:
  "parsePort pf ident = None \<Longrightarrow>
   PortCollector_collect pf sh m ident w =
     (createErrorResult ident (''Invalid port number: '' @ ident), w)"
  by (simp add: PortCollector_collect_def)

lemma port_identifier_ok_examples:
  "port_identifier_ok ''22''" "\<not> port_identifier_ok ''http''"
  by (simp_all add: port_identifier_ok_def decimal_integer_def c_str_def isspace_def isdigit_def
      dec_value_def digit_value_def)

lemma collectConnections_no_shell: "collectConnections pf no_shell m port () = ([], ())"
  by (cases m)
     (simp_all add: collectConnections_def collectTcpConnections_def collectUdpConnections_def
        executeCommand_def no_shell_def)

subsection \<open>The loop of \<open>parseNetstatOutput\<close>\<close>

lemma rfind_None_iff: "rfind s c = None \<longleftrightarrow> c \<notin> set s"
  by (induction s) (auto split: option.splits)

lemma netstat_columns_tokens:
  assumes "netstat_columns line = Some (la, fa, st)"
  shows "line \<noteq> []"
    and "\<not> length (tokenize [] line) < 6"
    and "\<not> length (tokenize [] line) < (if isSocketAddr (tokenize [] line ! 0) then 1 else 0) + 6"
    and "tokenize [] line ! ((if isSocketAddr (tokenize [] line ! 0) then 1 else 0) + 3) = la"
    and "tokenize [] line ! ((if isSocketAddr (tokenize [] line ! 0) then 1 else 0) + 4) = fa"
    and "tokenize [] line ! ((if isSocketAddr (tokenize [] line ! 0) then 1 else 0) + 5) = st"
  using assms
  by (auto simp: netstat_columns_def Let_def eval_nat_numeral split: list.splits if_splits)

lemma parseNetstatLine_no_columns:
  assumes "netstat_columns line = None"
  shows "parseNetstatLine pf sh port proto line w = (None, w)"
  using assms
  by (auto simp: netstat_columns_def parseNetstatLine_def Let_def split: list.splits if_splits)

lemma parseNetstatLine_columns:
  assumes "netstat_columns line = Some (la, fa, st)"
  shows "parseNetstatLine pf sh port proto line w =
     (case port_token la of
        None \<Rightarrow> (None, w)
      | Some lp \<Rightarrow>
          if portMismatch pf lp port \<and>
             (case port_token fa of Some fp \<Rightarrow> portMismatch pf fp port | None \<Rightarrow> True)
          then (None, w)
          else
            (let info = \<lparr>protocol = proto,
                           localAddress = take (the (rfind la (CHR ''.''))) la,
                           localPort = lp,
                           remoteAddress = (case rfind fa (CHR ''.'') of
                                              Some i \<Rightarrow> take i fa | None \<Rightarrow> fa),
                           remotePort = (case port_token fa of Some fp \<Rightarrow> fp | None \<Rightarrow> ''*''),
                           state = st, pid = 0, processName = [], user = []\<rparr>
             in if isSocketAddr (tokenize [] line ! 0)
                then (case findProcessForPort pf sh port proto info w of
                        (info', w') \<Rightarrow> (Some info', w'))
                else (Some info, w)))"
proof -
  note t = netstat_columns_tokens [OF assms]
  have sock: "(if isSocketAddr (tokenize [] line ! 0) then tokenize [] line ! 0 else []) \<noteq> []
                \<longleftrightarrow> isSocketAddr (tokenize [] line ! 0)"
    by (auto simp: isSocketAddr_def)
  show ?thesis
    unfolding parseNetstatLine_def Let_def
    by (simp only: t sock if_False)
       (simp add: port_token_def substr_from_def substr_to_def split: option.splits)
qed

lemma parseNetstatLine_Some_columns:
  assumes "parseNetstatLine pf sh port proto line w = (Some c, w')"
  shows "\<exists>la fa st lp.
           netstat_columns line = Some (la, fa, st) \<and> port_token la = Some lp \<and>
           (\<not> portMismatch pf lp port \<or>
            (\<exists>fp. port_token fa = Some fp \<and> \<not> portMismatch pf fp port))"
proof (cases "netstat_columns line")
  case None
  from parseNetstatLine_no_columns [OF this, of pf sh port proto w] assms
  show ?thesis by simp
next
  case (Some cols)
  obtain la fa st where cols: "cols = (la, fa, st)" by (cases cols)
  note eq = parseNetstatLine_columns [OF Some [unfolded cols], of pf sh port proto w]
  from assms eq obtain lp where lp: "port_token la = Some lp"
    by (cases "port_token la") auto
  from assms have
    "\<not> (portMismatch pf lp port \<and>
        (case port_token fa of Some fp \<Rightarrow> portMismatch pf fp port | None \<Rightarrow> True))"
    unfolding eq lp by (auto split: if_splits)
  then have "\<not> portMismatch pf lp port \<or> (\<exists>fp. port_token fa = Some fp \<and> \<not> portMismatch pf fp port)"
    by (cases "port_token fa") auto
  with Some cols lp show ?thesis by blast
qed

lemma parseNetstatLines_new:
  assumes "\<And>line w c w'. parseNetstatLine pf sh port proto line w = (Some c, w') \<Longrightarrow> P c"
  shows "\<exists>new. fst (parseNetstatLines pf sh port proto ls conns w) = conns @ new \<and>
               list_all P new"
proof (induction ls arbitrary: conns w)
  case Nil
  show ?case by simp
next
  case (Cons line ls)
  obtain r w1 where step: "parseNetstatLine pf sh port proto line w = (r, w1)"
    by (cases "parseNetstatLine pf sh port proto line w")
  show ?case
  proof (cases r)
    case None
    with step Cons.IH [of conns w1] show ?thesis by simp
  next
    case (Some c)
    with step have "P c" by (auto intro: assms)
    moreover from Cons.IH [of "conns @ [c]" w1] obtain new where
      "fst (parseNetstatLines pf sh port proto ls (conns @ [c]) w1) = (conns @ [c]) @ new"
      "list_all P new" by blast
    ultimately have
      "fst (parseNetstatLines pf sh port proto (line # ls) conns w) = conns @ (c # new) \<and>
       list_all P (c # new)"
      using step Some by simp
    then show ?thesis by blast
  qed
qed

lemma parseNetstatOutput_new:
  assumes "\<And>line w c w'. parseNetstatLine pf sh port proto line w = (Some c, w') \<Longrightarrow> P c"
  shows "\<exists>new. fst (parseNetstatOutput pf sh output port proto conns w) = conns @ new \<and>
               list_all P new"
  unfolding parseNetstatOutput_def by (rule parseNetstatLines_new) (rule assms)

lemma parseNetstatLine_no_dot:
  assumes "netstat_columns line = Some (la, fa, st)" "CHR ''.'' \<notin> set la"
  shows "parseNetstatLine pf sh port proto line w = (None, w)"
proof -
  from assms(2) have "rfind la (CHR ''.'') = None"
    by (rule rfind_None_iff [THEN iffD2])
  then have "port_token la = None"
    by (simp add: port_token_def)
  then show ?thesis
    by (simp add: parseNetstatLine_columns [OF assms(1)])
qed

subsection \<open>Concrete netstat lines\<close>

lemma tokenize_examples:
  "tokenize [] ''f1000e0001891398 tcp4 0 0 *.22 *.* LISTEN'' =
     [''f1000e0001891398'', ''tcp4'', ''0'', ''0'', ''*.22'', ''*.*'', ''LISTEN'']"
  "tokenize [] ''tcp4 0 0 10.0.0.1.5555 10.0.0.2.22 ESTABLISHED'' =
     [''tcp4'', ''0'', ''0'', ''10.0.0.1.5555'', ''10.0.0.2.22'', ''ESTABLISHED'']"
  "tokenize [] ''tcp4 0 0 loopback 10.1.1.1.8080 ESTABLISHED'' =
     [''tcp4'', ''0'', ''0'', ''loopback'', ''10.1.1.1.8080'', ''ESTABLISHED'']"
  by (simp_all add: isspace_def)

lemma isSocketAddr_examples:
  "isSocketAddr ''f1000e0001891398''" "\<not> isSocketAddr ''tcp4''"
  by (simp_all add: isSocketAddr_def)

lemma netstat_columns_examples:
  "netstat_columns ''f1000e0001891398 tcp4 0 0 *.22 *.* LISTEN'' =
     Some (''*.22'', ''*.*'', ''LISTEN'')"
  "netstat_columns ''tcp4 0 0 10.0.0.1.5555 10.0.0.2.22 ESTABLISHED'' =
     Some (''10.0.0.1.5555'', ''10.0.0.2.22'', ''ESTABLISHED'')"
  "netstat_columns ''tcp4 0 0 loopback 10.1.1.1.8080 ESTABLISHED'' =
     Some (''loopback'', ''10.1.1.1.8080'', ''ESTABLISHED'')"
  unfolding netstat_columns_def tokenize_examples Let_def list.case
  by (simp_all only: isSocketAddr_examples if_True if_False) simp_all

lemma port_token_examples:
  "port_token ''*.22'' = Some ''22''" "port_token ''*.*'' = Some ''*''"
  "port_token ''10.0.0.1.5555'' = Some ''5555''" "port_token ''10.0.0.2.22'' = Some ''22''"
  "port_token ''10.1.1.1.8080'' = Some ''8080''" "port_token ''loopback'' = None"
  by (simp_all add: port_token_def)

lemma rfind_examples:
  "rfind ''*.22'' (CHR ''.'') = Some 1" "rfind ''*.*'' (CHR ''.'') = Some 1"
  "rfind ''10.0.0.1.5555'' (CHR ''.'') = Some 8" "rfind ''10.0.0.2.22'' (CHR ''.'') = Some 8"
  by simp_all

lemma decimal_integer_ports:
  "decimal_integer (c_str ''22'') = Some 22" "decimal_integer (c_str ''*'') = None"
  "decimal_integer (c_str ''5555'') = Some 5555" "decimal_integer (c_str ''8080'') = Some 8080"
  by (simp_all add: decimal_integer_def c_str_def isspace_def isdigit_def dec_value_def
      digit_value_def)

lemma portMismatch_examples:
  "\<not> portMismatch pf ''22'' 22" "portMismatch pf ''*'' 22" "portMismatch pf ''5555'' 22"
  by (simp_all add: portMismatch_iff decimal_integer_ports)

subsection \<open>The records of the protocol passes\<close>












subsection \<open>The system with one listening socket\<close>

lemma sshd_shell_netstat:
  "executeCommand sshd_shell ''netstat -Aan -f inet 2>/dev/null | grep tcp'' out () =
     ((True, ''f1000e0001891398 tcp4 0 0 *.22 *.* LISTEN'' @ [CHR 0x0A]), ())"
  "executeCommand sshd_shell ''netstat -Aan -f inet6 2>/dev/null | grep tcp'' out () =
     ((False, []), ())"
  "executeCommand sshd_shell ''netstat -Aan -f inet 2>/dev/null | grep udp'' out () =
     ((False, []), ())"
  "executeCommand sshd_shell ''netstat -an -f inet 2>/dev/null | grep udp'' out () =
     ((False, []), ())"
  by (simp_all add: executeCommand_def sshd_shell_def c_str_def)

lemma sshd_shell_lsof:
  "executeCommand sshd_shell ''lsof -i :22 -n -P 2>/dev/null | grep -i tcp'' out () =
     ((True, ''sshd 1234 root 3u IPv4 12345 0t0 TCP *:22 (LISTEN)'' @ [CHR 0x0A]), ())"
  by (simp add: executeCommand_def sshd_shell_def c_str_def)

lemma show_nat_examples: "show_nat 0 = ''0''" "show_nat (Suc 0) = ''1''" "show_nat 22 = ''22''"
  "show_nat 1234 = ''1234''"
  by (simp_all add: show_nat.simps)

lemma lsof_line:
  "getlines [] (''sshd 1234 root 3u IPv4 12345 0t0 TCP *:22 (LISTEN)'' @ [CHR 0x0A]) =
     [''sshd 1234 root 3u IPv4 12345 0t0 TCP *:22 (LISTEN)'']"
  "tokenize [] ''sshd 1234 root 3u IPv4 12345 0t0 TCP *:22 (LISTEN)'' =
     [''sshd'', ''1234'', ''root'', ''3u'', ''IPv4'', ''12345'', ''0t0'', ''TCP'', ''*:22'',
      ''(LISTEN)'']"
  by (simp_all add: isspace_def)

lemma strtol_1234: "strtol pf (c_str ''1234'') = (1234, 4)" "deref (c_str ''1234'') 4 = CHR 0x00"
  by (simp_all add: strtol_def c_str_def isspace_def isdigit_def dec_value_def digit_value_def
      LONG_MAX_eval deref_def)

lemma as_pid_t_1234: "as_pid_t aix32 1234 = 1234"
  by (rule as_pid_t_id) (simp_all add: aix32_def INT32_MAX_def)

lemma sshd_lookup:
  "findProcessForPort aix32 sshd_shell 22 ''tcp''
     \<lparr>protocol = ''tcp'', localAddress = ''*'', localPort = ''22'', remoteAddress = ''*'',
      remotePort = ''*'', state = ''LISTEN'', pid = 0, processName = [], user = []\<rparr> () =
     (sshd_connection, ())"
proof -
  have a: "defined_AIX aix32" by (simp add: aix32_def)
  have cmd: "''lsof -i :'' @ show_nat (unat (22 :: 16 word)) @ '' -n -P 2>/dev/null | grep -i '' @ ''tcp'' =
        ''lsof -i :22 -n -P 2>/dev/null | grep -i tcp''"
    by (simp add: show_nat_examples)
  show ?thesis
    unfolding findProcessForPort_def cmd sshd_shell_lsof
    apply (simp only: a if_True prod.case lsof_line simp_thms)
    apply (simp only: lsofLines.simps lsof_line Let_def)
    apply (simp add: strtol_1234 as_pid_t_1234 del: lsofLines.simps tokenize.simps getlines.simps)
    apply (simp only: sshd_connection_def)
    done
qed

lemma sshd_line:
  "parseNetstatLine aix32 sshd_shell 22 ''tcp'' ''f1000e0001891398 tcp4 0 0 *.22 *.* LISTEN'' () =
     (Some sshd_connection, ())"
  unfolding parseNetstatLine_columns [OF netstat_columns_examples(1)] port_token_examples
    option.case tokenize_examples
  by (simp only: portMismatch_examples simp_thms if_False Let_def rfind_examples option.case
        option.sel nth_Cons_0 isSocketAddr_examples if_True)
     (simp add: sshd_lookup)

lemma sshd_output:
  "parseNetstatOutput aix32 sshd_shell (''f1000e0001891398 tcp4 0 0 *.22 *.* LISTEN'' @ [CHR 0x0A])
     22 ''tcp'' [] () = ([sshd_connection], ())"
proof -
  have "getlines [] (''f1000e0001891398 tcp4 0 0 *.22 *.* LISTEN'' @ [CHR 0x0A]) =
          [''f1000e0001891398 tcp4 0 0 *.22 *.* LISTEN'']"
    by simp
  then show ?thesis
    by (simp add: parseNetstatOutput_def sshd_line)
qed

lemma sshd_connections:
  "collectConnections aix32 sshd_shell Both 22 () = ([sshd_connection], ())"
  unfolding collectConnections_def collectTcpConnections_def collectUdpConnections_def
    sshd_shell_netstat prod.case
  by (simp only: simp_thms if_True if_False sshd_output prod.case sshd_shell_netstat)

subsection \<open>The system with three sockets on port 22\<close>




















lemma port22_answers:
  "\<forall>cmd\<in>set netstat_commands. \<forall>w. fst (port22_shell cmd w) = port22_netstat cmd"
  by (simp add: port22_netstat_def port22_shell_def)






subsection \<open>File modes\<close>

lemma replicate_10: "replicate 10 x = [x, x, x, x, x, x, x, x, x, x]"
  by (simp add: eval_nat_numeral)

lemma list_update_Cons_numeral:
  "(x # xs)[numeral k := v] = x # xs[pred_numeral k := v]"
  by (simp add: numeral_eq_Suc)

lemma modeToSymbolic_chars:
  "modeToSymbolic mode =
     [perm_char mode S_IRUSR (CHR ''r''), perm_char mode S_IWUSR (CHR ''w''),
      exec_char mode S_ISUID S_IXUSR (CHR ''s'') (CHR ''S''),
      perm_char mode S_IRGRP (CHR ''r''), perm_char mode S_IWGRP (CHR ''w''),
      exec_char mode S_ISGID S_IXGRP (CHR ''s'') (CHR ''S''),
      perm_char mode S_IROTH (CHR ''r''), perm_char mode S_IWOTH (CHR ''w''),
      exec_char mode S_ISVTX S_IXOTH (CHR ''t'') (CHR ''T'')]"
proof -
  have p: "perm_char mode b c \<noteq> CHR 0x00" if "c \<noteq> CHR 0x00" for b c
    using that by (simp add: perm_char_def)
  have e: "exec_char mode special b l u \<noteq> CHR 0x00" if "l \<noteq> CHR 0x00" "u \<noteq> CHR 0x00"
    for special b l u
    using that by (simp add: exec_char_def)
  have buf: "modeToSymbolic mode =
     c_str [perm_char mode S_IRUSR (CHR ''r''), perm_char mode S_IWUSR (CHR ''w''),
      exec_char mode S_ISUID S_IXUSR (CHR ''s'') (CHR ''S''),
      perm_char mode S_IRGRP (CHR ''r''), perm_char mode S_IWGRP (CHR ''w''),
      exec_char mode S_ISGID S_IXGRP (CHR ''s'') (CHR ''S''),
      perm_char mode S_IROTH (CHR ''r''), perm_char mode S_IWOTH (CHR ''w''),
      exec_char mode S_ISVTX S_IXOTH (CHR ''t'') (CHR ''T''), CHR 0x00]"
    unfolding modeToSymbolic_def Let_def replicate_10 perm_char_def exec_char_def
    by (cases "mode AND S_ISUID = 0"; cases "mode AND S_ISGID = 0"; cases "mode AND S_ISVTX = 0")
       (simp_all only: if_True if_False not_not simp_thms list_update_Cons_numeral
          list_update_code pred_numeral_simps Num.BitM.simps One_nat_def numeral_One)
  show ?thesis
    unfolding buf c_str_def by (simp add: p e)
qed

lemma and_low12:
  fixes m k :: "32 word"
  assumes "k AND 0xFFF = k"
  shows "m AND k = (m AND 0xFFF) AND k"
  by (metis assms and.assoc and.commute)

lemma mode_0644_bits:
  fixes m :: "32 word"
  assumes "m AND 0xFFF = 0x1A4"
  shows "m AND S_IRUSR \<noteq> 0" "m AND S_IWUSR \<noteq> 0" "m AND S_IXUSR = 0"
    "m AND S_IRGRP \<noteq> 0" "m AND S_IWGRP = 0" "m AND S_IXGRP = 0"
    "m AND S_IROTH \<noteq> 0" "m AND S_IWOTH = 0" "m AND S_IXOTH = 0"
    "m AND S_ISUID = 0" "m AND S_ISGID = 0" "m AND S_ISVTX = 0"
  unfolding S_IRUSR_def S_IWUSR_def S_IXUSR_def S_IRGRP_def S_IWGRP_def S_IXGRP_def
    S_IROTH_def S_IWOTH_def S_IXOTH_def S_ISUID_def S_ISGID_def S_ISVTX_def
  by (subst and_low12, simp, simp add: assms)+

lemma modeToSymbolic_0644:
  fixes m :: "32 word"
  assumes "m AND 0xFFF = 0x1A4"
  shows "modeToSymbolic m = ''rw-r--r--''"
  by (simp add: modeToSymbolic_chars perm_char_def exec_char_def mode_0644_bits [OF assms])

lemma show_oct_0644: "show_oct 420 = ''644''"
  by (simp add: show_oct.simps)

lemma mem_addAttribute:
  "a \<in> set (attributes (addAttribute n v r)) \<longleftrightarrow>
     a = \<lparr>name = n, vals = [v]\<rparr> \<or> a \<in> set (attributes r)"
  "a \<in> set (attributes (addAttribute_int64 n i r)) \<longleftrightarrow>
     a = \<lparr>name = n, vals = [show_int (as_int64 i)]\<rparr> \<or> a \<in> set (attributes r)"
  "a \<in> set (attributes (addAttribute_uint64 n i r)) \<longleftrightarrow>
     a = \<lparr>name = n, vals = [show_int (as_uint64 i)]\<rparr> \<or> a \<in> set (attributes r)"
  by (auto simp: addAttribute_def addAttribute_int64_def addAttribute_uint64_def)

lemma mem_collectOwnership:
  "a \<in> set (attributes r) \<Longrightarrow> a \<in> set (attributes (collectOwnership os st r))"
  by (simp add: collectOwnership_def Let_def mem_addAttribute split: option.splits)

lemma mem_collectAccessInfo:
  "a \<in> set (attributes r) \<Longrightarrow> a \<in> set (attributes (collectAccessInfo os path r))"
  by (simp add: collectAccessInfo_def Let_def mem_addAttribute)

lemma mem_emitStats:
  "\<lparr>name = ''type'', vals = [fileTypeToString (st_mode lst)]\<rparr>
     \<in> set (attributes (emitStats os lst st r))"
  "\<lparr>name = ''mode_octal'', vals = [''0'' @ show_oct (unat (st_mode st AND 0xFFF))]\<rparr>
     \<in> set (attributes (emitStats os lst st r))"
  "\<lparr>name = ''mode_symbolic'', vals = [modeToSymbolic (st_mode st)]\<rparr>
     \<in> set (attributes (emitStats os lst st r))"
  unfolding emitStats_def Let_def
  by (simp_all add: mem_addAttribute mem_collectOwnership)

lemma regular_not_symlink: "S_ISREG m \<Longrightarrow> \<not> S_ISLNK m"
  by (simp add: S_ISREG_def S_ISLNK_def S_IFREG_def S_IFLNK_def)

lemma FileCollector_collect_regular:
  assumes "path \<noteq> []" "os_lstat64 os (c_str path) = Inr st" "S_ISREG (st_mode st)"
  shows "FileCollector_collect os path =
     collectAccessInfo os path
       ((emitStats os st st (MetadataResult0\<lparr>type := ''file'', identifier' := path\<rparr>))
          \<lparr>success := True\<rparr>)"
  using assms
  by (simp add: FileCollector_collect_def collectStats_def regular_not_symlink)

lemma success_collectAccessInfo: "success (collectAccessInfo os path r) = success r"
  by (simp add: collectAccessInfo_def Let_def addAttribute_fields)

section \<open>The claims\<close>

text \<open>
  C1 (the code departs from the claim). The claim: every result of a
  \<open>collect\<close> call has a \<open>type\<close> field that is \<open>process\<close>, \<open>file\<close> or \<open>port\<close>
  and matches the collector. Each \<open>collect\<close> sets the field on its local
  result and then, for a malformed identifier or a process that is not found,
  returns the fresh result of \<open>createErrorResult\<close>, whose \<open>type\<close> is the empty
  string. The theorem gives the \<open>type\<close> field of every result of the three
  collectors: it is the collector's name exactly on the paths that do not go
  through \<open>createErrorResult\<close>.
\<close>

theorem error_results_lose_type:
  "type (createErrorResult ident msg) = [] \<and>
   type (fst (PortCollector_collect pf sh m ident w)) =
     (if parsePort pf ident = None then [] else ''port'') \<and>
   type (FileCollector_collect fos ident) = (if ident = [] then [] else ''file'') \<and>
   type (ProcessCollector_collect pf pos ident) =
     (case parsePid pf ident of
        None \<Rightarrow> []
      | Some p \<Rightarrow> if basicInfo pos p = None then [] else ''process'')"
  by (simp only: type_PortCollector_collect type_FileCollector_collect
      type_ProcessCollector_collect)
     (simp add: createErrorResult_def MetadataResult0_def)

theorem error_results_lose_type_witness:
  "type (fst (PortCollector_collect aix32 no_shell Both ''abc'' ())) = [] \<and>
   type (FileCollector_collect passwd_os []) = [] \<and>
   type (ProcessCollector_collect aix32 no_process ''abc'') = []"
  using error_results_lose_type [of "''abc''" "[]" aix32 no_shell Both "()" passwd_os no_process]
    error_results_lose_type [of "[]" "[]" aix32 no_shell Both "()" passwd_os no_process]
  by (simp add: parsePort_examples parsePid_def strtol_def c_str_def isspace_def isdigit_def)

text \<open>
  C2. \<open>PortCollector::collect\<close> reads the identifier as a base-10 integer, the
  way \<open>strtol\<close> reads a C string: optional white space, an optional sign,
  decimal digits, and nothing after them. It returns an error result
  (\<open>success\<close> false, with the message \<open>Invalid port number: \<close> and the
  identifier) exactly when the identifier is not such an integer or the
  integer is outside [1,65535]; any other result has \<open>success\<close> true and no
  message. \<open>0\<close> and \<open>65536\<close> are rejected; \<open>1\<close> and \<open>65535\<close> go on to the
  collection of the connections of ports 1 and 65535.
\<close>

theorem port_identifier_checked:
  "(success (fst (PortCollector_collect pf sh m ident w)) = False \<longleftrightarrow>
      \<not> port_identifier_ok ident) \<and>
   errorMessage (fst (PortCollector_collect pf sh m ident w)) =
     (if port_identifier_ok ident then [] else ''Invalid port number: '' @ ident) \<and>
   success (fst (PortCollector_collect pf sh m ''0'' w)) = False \<and>
   success (fst (PortCollector_collect pf sh m ''65536'' w)) = False \<and>
   PortCollector_collect pf sh m ''1'' w =
     (case collectConnections pf sh m 1 w of (cs, w') \<Rightarrow> (assembleResult ''1'' cs, w')) \<and>
   PortCollector_collect pf sh m ''65535'' w =
     (case collectConnections pf sh m 65535 w of
        (cs, w') \<Rightarrow> (assembleResult ''65535'' cs, w'))"
proof (intro conjI)
  show "success (fst (PortCollector_collect pf sh m ident w)) = False \<longleftrightarrow>
      \<not> port_identifier_ok ident"
  proof (cases "parsePort pf ident")
    case None
    moreover from None have "\<not> port_identifier_ok ident"
      using port_identifier_ok_parsePort [of pf ident] by simp
    ultimately show ?thesis
      by (simp add: PortCollector_collect_def createErrorResult_def MetadataResult0_def)
  next
    case (Some port)
    moreover from Some have "port_identifier_ok ident"
      using port_identifier_ok_parsePort [of pf ident] by simp
    ultimately show ?thesis
      by (simp add: PortCollector_collect_def success_assembleResult split: prod.splits)
  qed
  show "errorMessage (fst (PortCollector_collect pf sh m ident w)) =
     (if port_identifier_ok ident then [] else ''Invalid port number: '' @ ident)"
  proof (cases "parsePort pf ident")
    case None
    moreover from None have "\<not> port_identifier_ok ident"
      using port_identifier_ok_parsePort [of pf ident] by simp
    ultimately show ?thesis
      by (simp add: PortCollector_collect_def createErrorResult_def MetadataResult0_def)
  next
    case (Some port)
    moreover from Some have "port_identifier_ok ident"
      using port_identifier_ok_parsePort [of pf ident] by simp
    ultimately show ?thesis
      by (simp add: PortCollector_collect_def errorMessage_assembleResult split: prod.splits)
  qed
  show "success (fst (PortCollector_collect pf sh m ''0'' w)) = False"
    by (simp add: PortCollector_collect_None parsePort_examples createErrorResult_def
        MetadataResult0_def)
  show "success (fst (PortCollector_collect pf sh m ''65536'' w)) = False"
    by (simp add: PortCollector_collect_None parsePort_examples createErrorResult_def
        MetadataResult0_def)
  show "PortCollector_collect pf sh m ''1'' w =
     (case collectConnections pf sh m 1 w of (cs, w') \<Rightarrow> (assembleResult ''1'' cs, w'))"
    by (rule PortCollector_collect_Some) (simp add: parsePort_examples)
  show "PortCollector_collect pf sh m ''65535'' w =
     (case collectConnections pf sh m 65535 w of
        (cs, w') \<Rightarrow> (assembleResult ''65535'' cs, w'))"
    by (rule PortCollector_collect_Some) (simp add: parsePort_examples)
qed

theorem port_identifier_checked_witness:
  "success (fst (PortCollector_collect aix32 no_shell Both ''22'' ())) = True \<and>
   success (fst (PortCollector_collect aix32 no_shell Both ''http'' ())) = False \<and>
   errorMessage (fst (PortCollector_collect aix32 no_shell Both ''http'' ())) =
     ''Invalid port number: http''"
  using port_identifier_checked [of aix32 no_shell Both "''22''" "()"]
    port_identifier_checked [of aix32 no_shell Both "''http''" "()"]
  by (simp add: port_identifier_ok_examples)

text \<open>
  C3. For a target port from 1 to 65535 (a 16-bit port other than 0): a line for
  which the loop of \<open>parseNetstatOutput\<close> builds a record has a local-address
  and a foreign-address column, and the port token of one of the two, read
  again as a base-10 integer, is the target port. So every record that
  \<open>parseNetstatOutput\<close> appends has a local or a remote port that reads as the
  target port.
\<close>

theorem kept_line_matches_port:
  assumes "port \<noteq> 0"
  shows "(parseNetstatLine pf sh port proto line w = (Some c, w') \<longrightarrow>
            (\<exists>la fa st. netstat_columns line = Some (la, fa, st) \<and>
               (port_number la = Some (uint port) \<or> port_number fa = Some (uint port)))) \<and>
         (\<exists>new. fst (parseNetstatOutput pf sh output port proto conns w) = conns @ new \<and>
            list_all (\<lambda>c. decimal_integer (c_str (localPort c)) = Some (uint port) \<or>
                          decimal_integer (c_str (remotePort c)) = Some (uint port)) new)"
proof (intro conjI impI)
  assume "parseNetstatLine pf sh port proto line w = (Some c, w')"
  from parseNetstatLine_Some_columns [OF this] obtain la fa st lp where
    cols: "netstat_columns line = Some (la, fa, st)" and lp: "port_token la = Some lp" and
    m: "\<not> portMismatch pf lp port \<or> (\<exists>fp. port_token fa = Some fp \<and> \<not> portMismatch pf fp port)"
    by blast
  from m have "port_number la = Some (uint port) \<or> port_number fa = Some (uint port)"
    using lp by (auto simp: port_number_def portMismatch_iff [OF assms])
  with cols show "\<exists>la fa st. netstat_columns line = Some (la, fa, st) \<and>
               (port_number la = Some (uint port) \<or> port_number fa = Some (uint port))"
    by blast
next
  show "\<exists>new. fst (parseNetstatOutput pf sh output port proto conns w) = conns @ new \<and>
            list_all (\<lambda>c. decimal_integer (c_str (localPort c)) = Some (uint port) \<or>
                          decimal_integer (c_str (remotePort c)) = Some (uint port)) new"
  proof (rule parseNetstatOutput_new)
    fix line w c w'
    assume "parseNetstatLine pf sh port proto line w = (Some c, w')"
    from parseNetstatLine_kept [OF this] assms
    show "decimal_integer (c_str (localPort c)) = Some (uint port) \<or>
          decimal_integer (c_str (remotePort c)) = Some (uint port)"
      by simp
  qed
qed

theorem kept_line_matches_port_witness:
  "(22 :: 16 word) \<noteq> 0 \<and>
   parseNetstatLine aix32 no_shell 22 ''tcp'' ''tcp4 0 0 10.0.0.1.5555 10.0.0.2.22 ESTABLISHED'' () =
     (Some \<lparr>protocol = ''tcp'', localAddress = ''10.0.0.1'', localPort = ''5555'',
             remoteAddress = ''10.0.0.2'', remotePort = ''22'', state = ''ESTABLISHED'',
             pid = 0, processName = [], user = []\<rparr>, ()) \<and>
   (\<exists>la fa st.
      netstat_columns ''tcp4 0 0 10.0.0.1.5555 10.0.0.2.22 ESTABLISHED'' = Some (la, fa, st) \<and>
      (port_number la = Some 22 \<or> port_number fa = Some 22))"
proof -
  have nz: "(22 :: 16 word) \<noteq> 0" by simp
  have kept:
    "parseNetstatLine aix32 no_shell 22 ''tcp'' ''tcp4 0 0 10.0.0.1.5555 10.0.0.2.22 ESTABLISHED'' () =
     (Some \<lparr>protocol = ''tcp'', localAddress = ''10.0.0.1'', localPort = ''5555'',
             remoteAddress = ''10.0.0.2'', remotePort = ''22'', state = ''ESTABLISHED'',
             pid = 0, processName = [], user = []\<rparr>, ())"
    unfolding parseNetstatLine_columns [OF netstat_columns_examples(2)] port_token_examples
      option.case tokenize_examples
    by (simp only: portMismatch_examples simp_thms if_False Let_def rfind_examples option.case
          option.sel nth_Cons_0 isSocketAddr_examples)
       simp
  from kept_line_matches_port [OF nz, of aix32 no_shell "''tcp''"
      "''tcp4 0 0 10.0.0.1.5555 10.0.0.2.22 ESTABLISHED''" "()" _ "()" "[]" "[]"] kept nz
  show ?thesis by simp
qed

text \<open>
  C4. The line \<open>f1000e0001891398 tcp4 0 0 *.22 *.* LISTEN\<close>, parsed in the pass
  for TCP over IPv4 (protocol tag \<open>tcp\<close>) with target port 22, gives exactly one
  connection record: protocol \<open>tcp\<close>, local address \<open>*\<close>, local port \<open>22\<close>, remote
  address \<open>*\<close>, remote port \<open>*\<close>, state \<open>LISTEN\<close>, whatever the process lookup
  finds. Its first token has 16 bytes, all of them hexadecimal digits, so it
  is a socket address, and the address and state columns are the tokens after
  it that they are in the line without the socket address.
\<close>

theorem socket_handle_line:
  "map netstat_fields
     (fst (parseNetstatOutput pf sh ''f1000e0001891398 tcp4 0 0 *.22 *.* LISTEN'' 22 ''tcp'' [] w)) =
     [(''tcp'', ''*'', ''22'', ''*'', ''*'', ''LISTEN'')] \<and>
   isSocketAddr ''f1000e0001891398'' \<and>
   length ''f1000e0001891398'' = 16 \<and>
   netstat_columns ''f1000e0001891398 tcp4 0 0 *.22 *.* LISTEN'' =
     Some (''*.22'', ''*.*'', ''LISTEN'') \<and>
   netstat_columns ''tcp4 0 0 *.22 *.* LISTEN'' = Some (''*.22'', ''*.*'', ''LISTEN'')"
proof -
  let ?info = "\<lparr>protocol = ''tcp'', localAddress = ''*'', localPort = ''22'',
                remoteAddress = ''*'', remotePort = ''*'', state = ''LISTEN'',
                pid = 0, processName = [], user = []\<rparr>"
  have line: "parseNetstatLine pf sh 22 ''tcp'' ''f1000e0001891398 tcp4 0 0 *.22 *.* LISTEN'' w =
     (Some (fst (findProcessForPort pf sh 22 ''tcp'' ?info w)),
      snd (findProcessForPort pf sh 22 ''tcp'' ?info w))"
    unfolding parseNetstatLine_columns [OF netstat_columns_examples(1)] port_token_examples
      option.case tokenize_examples
    by (simp only: portMismatch_examples simp_thms if_False Let_def rfind_examples option.case
          option.sel nth_Cons_0 isSocketAddr_examples if_True)
       (simp add: case_prod_unfold)
  have "getlines [] ''f1000e0001891398 tcp4 0 0 *.22 *.* LISTEN'' =
          [''f1000e0001891398 tcp4 0 0 *.22 *.* LISTEN'']"
    by simp
  then have "map netstat_fields
     (fst (parseNetstatOutput pf sh ''f1000e0001891398 tcp4 0 0 *.22 *.* LISTEN'' 22 ''tcp'' [] w)) =
     [netstat_fields ?info]"
    by (simp add: parseNetstatOutput_def line findProcessForPort_fields)
  moreover have "netstat_columns ''tcp4 0 0 *.22 *.* LISTEN'' = Some (''*.22'', ''*.*'', ''LISTEN'')"
    by (simp add: netstat_columns_def isSocketAddr_def isspace_def)
  ultimately show ?thesis
    by (simp add: netstat_fields_def isSocketAddr_examples netstat_columns_examples)
qed

theorem socket_handle_line_witness:
  "map netstat_fields
     (fst (parseNetstatOutput aix32 sshd_shell ''f1000e0001891398 tcp4 0 0 *.22 *.* LISTEN''
             22 ''tcp'' [] ())) =
     [(''tcp'', ''*'', ''22'', ''*'', ''*'', ''LISTEN'')]"
  by (rule socket_handle_line [THEN conjunct1])



text \<open>
  C6. For a valid port identifier, when the protocol passes give no connection,
  the result of \<open>PortCollector::collect\<close> has \<open>success\<close> true and exactly two
  attributes: \<open>status\<close> with the value \<open>no_connections_found\<close>, and \<open>port\<close> with the
  identifier as given; so it has no \<open>connection_\<close> attribute.
\<close>

theorem no_connections_result:
  assumes "parsePort pf ident = Some port"
    and "fst (collectConnections pf sh m port w) = []"
  shows "fst (PortCollector_collect pf sh m ident w) =
     \<lparr>type = ''port'', identifier' = ident,
      attributes = [\<lparr>name = ''status'', vals = [''no_connections_found'']\<rparr>,
                    \<lparr>name = ''port'', vals = [ident]\<rparr>],
      success = True, errorMessage = []\<rparr>"
proof -
  obtain cs w' where c: "collectConnections pf sh m port w = (cs, w')"
    by (cases "collectConnections pf sh m port w")
  with assms(2) have "cs = []" by simp
  with c assms(1) show ?thesis
    by (simp add: PortCollector_collect_def assembleResult_empty)
qed

theorem no_connections_result_witness:
  "parsePort aix32 ''8080'' = Some 8080 \<and>
   fst (collectConnections aix32 no_shell Both 8080 ()) = [] \<and>
   fst (PortCollector_collect aix32 no_shell Both ''8080'' ()) =
     \<lparr>type = ''port'', identifier' = ''8080'',
      attributes = [\<lparr>name = ''status'', vals = [''no_connections_found'']\<rparr>,
                    \<lparr>name = ''port'', vals = [''8080'']\<rparr>],
      success = True, errorMessage = []\<rparr>"
proof -
  have p: "parsePort aix32 ''8080'' = Some 8080"
    by (simp add: parsePort_decimal decimal_integer_def c_str_def isspace_def isdigit_def
        dec_value_def digit_value_def)
  have c: "fst (collectConnections aix32 no_shell Both 8080 ()) = []"
    by (simp add: collectConnections_no_shell)
  from no_connections_result [OF p c] p c show ?thesis by simp
qed

text \<open>
  C7. \<open>createErrorResult(identifier, message)\<close> has \<open>success\<close> false, the given
  identifier, the given message and no attributes. The three collectors return
  exactly this result for an empty file path, for a PID or a port that does
  not parse, and for a process that \<open>collectBasicInfo\<close> does not find.
\<close>

theorem createErrorResult_shape:
  "success (createErrorResult ident msg) = False \<and>
   identifier' (createErrorResult ident msg) = ident \<and>
   errorMessage (createErrorResult ident msg) = msg \<and>
   attributes (createErrorResult ident msg) = [] \<and>
   FileCollector_collect fos [] = createErrorResult [] ''Empty file path'' \<and>
   (parsePid pf pidStr = None \<longrightarrow>
      ProcessCollector_collect pf pos pidStr =
        createErrorResult pidStr (''Invalid PID format: '' @ pidStr)) \<and>
   (parsePid pf pidStr = Some p \<and> basicInfo pos p = None \<longrightarrow>
      ProcessCollector_collect pf pos pidStr =
        createErrorResult pidStr (''Process not found or access denied for PID: '' @ pidStr)) \<and>
   (parsePort pf portStr = None \<longrightarrow>
      PortCollector_collect pf sh m portStr w =
        (createErrorResult portStr (''Invalid port number: '' @ portStr), w))"
  by (simp add: createErrorResult_def MetadataResult0_def FileCollector_collect_def
      ProcessCollector_collect_def collectBasicInfo_def PortCollector_collect_def)

theorem createErrorResult_shape_witness:
  "parsePid aix32 ''12x'' = None \<and>
   ProcessCollector_collect aix32 no_process ''12x'' =
     createErrorResult ''12x'' ''Invalid PID format: 12x'' \<and>
   parsePid aix32 ''42'' = Some 42 \<and> basicInfo no_process 42 = None \<and>
   ProcessCollector_collect aix32 no_process ''42'' =
     createErrorResult ''42'' ''Process not found or access denied for PID: 42'' \<and>
   parsePort aix32 ''http'' = None \<and>
   PortCollector_collect aix32 no_shell Both ''http'' () =
     (createErrorResult ''http'' ''Invalid port number: http'', ())"
proof -
  have b: "32 \<le> pid_t_bits aix32" by (simp add: aix32_def)
  have n: "parsePid aix32 ''12x'' = None"
    by (rule parsePid_examples(5) [OF b])
  have s: "parsePid aix32 ''42'' = Some 42"
    by (rule parsePid_examples(6) [OF b])
  have o: "basicInfo no_process 42 = None"
    by (simp add: no_process_def)
  have q: "parsePort aix32 ''http'' = None"
    by (simp add: parsePort_decimal decimal_integer_def c_str_def isspace_def isdigit_def)
  from createErrorResult_shape [of "''12x''" "[]" passwd_os aix32 "''12x''" no_process 42 "''http''" no_shell Both "()"]
    createErrorResult_shape [of "''42''" "[]" passwd_os aix32 "''42''" no_process 42 "''http''" no_shell Both "()"]
    n s o q
  show ?thesis by simp
qed

text \<open>
  C8. \<open>parsePid\<close> reads the identifier with \<open>strtol\<close> into a \<open>long\<close> and then tests
  \<open>value <= 0 || value > INT32_MAX\<close>; \<open>errno\<close> is not read. Where \<open>pid_t\<close> has at least
  32 bits: an identifier that is not a whole base-10 integer, or one that is
  below 1, is rejected, and \<open>ProcessCollector::collect\<close> returns the error result
  \<open>Invalid PID format\<close> for every rejected identifier; \<open>0\<close> is rejected, \<open>007\<close> is
  PID 7 and \<open>2147483647\<close> is accepted. A value above \<open>INT32_MAX\<close> is rejected where
  \<open>long\<close> has 64 bits. Where \<open>long\<close> has 32 bits, \<open>strtol\<close> saturates at \<open>LONG_MAX\<close> =
  \<open>INT32_MAX\<close>, the range test does not fire, and every value above the maximum is
  accepted as PID 2147483647: for \<open>2147483648\<close>, \<open>collect\<close> does not return the
  error result \<open>Invalid PID format\<close> but the answer for process 2147483647.
\<close>

theorem pid_above_maximum_accepted:
  assumes "32 \<le> pid_t_bits pf"
  shows "parsePid pf ident =
           (case decimal_integer (c_str ident) of
              None \<Rightarrow> None
            | Some v \<Rightarrow>
                if 1 \<le> v \<and> (v \<le> INT32_MAX \<or> long_model pf = ILP32)
                then Some (min v INT32_MAX) else None) \<and>
         (parsePid pf ident = None \<longrightarrow>
            ProcessCollector_collect pf os ident =
              createErrorResult ident (''Invalid PID format: '' @ ident)) \<and>
         parsePid pf ''0'' = None \<and>
         parsePid pf ''007'' = Some 7 \<and>
         parsePid pf ''2147483647'' = Some 2147483647 \<and>
         parsePid pf ''2147483648'' =
           (if long_model pf = ILP32 then Some 2147483647 else None) \<and>
         parsePid pf ''99999999999999999999'' =
           (if long_model pf = ILP32 then Some 2147483647 else None) \<and>
         (long_model pf = ILP32 \<longrightarrow>
            ProcessCollector_collect pf os ''2147483648'' \<noteq>
              createErrorResult ''2147483648'' ''Invalid PID format: 2147483648'' \<and>
            ProcessCollector_collect pf os ''2147483648'' =
              (ProcessCollector_collect pf os ''2147483647'')
                \<lparr>identifier' := ''2147483648'',
                 errorMessage :=
                   (if basicInfo os 2147483647 = None
                    then ''Process not found or access denied for PID: 2147483648''
                    else [])\<rparr>)"
proof (intro conjI)
  show "parsePid pf ident =
           (case decimal_integer (c_str ident) of
              None \<Rightarrow> None
            | Some v \<Rightarrow>
                if 1 \<le> v \<and> (v \<le> INT32_MAX \<or> long_model pf = ILP32)
                then Some (min v INT32_MAX) else None)"
    by (rule parsePid_decimal [OF assms])
  show "parsePid pf ident = None \<longrightarrow>
            ProcessCollector_collect pf os ident =
              createErrorResult ident (''Invalid PID format: '' @ ident)"
    by (simp add: ProcessCollector_collect_def)
  show "parsePid pf ''0'' = None" "parsePid pf ''007'' = Some 7"
    "parsePid pf ''2147483647'' = Some 2147483647"
    by (simp_all only: parsePid_examples [OF assms])
  show "parsePid pf ''2147483648'' =
           (if long_model pf = ILP32 then Some 2147483647 else None)"
    using parsePid_above_maximum(1,3) [OF assms] by (cases "long_model pf") simp_all
  show "parsePid pf ''99999999999999999999'' =
           (if long_model pf = ILP32 then Some 2147483647 else None)"
    using parsePid_above_maximum(2,4) [OF assms] by (cases "long_model pf") simp_all
  show "long_model pf = ILP32 \<longrightarrow>
            ProcessCollector_collect pf os ''2147483648'' \<noteq>
              createErrorResult ''2147483648'' ''Invalid PID format: 2147483648'' \<and>
            ProcessCollector_collect pf os ''2147483648'' =
              (ProcessCollector_collect pf os ''2147483647'')
                \<lparr>identifier' := ''2147483648'',
                 errorMessage :=
                   (if basicInfo os 2147483647 = None
                    then ''Process not found or access denied for PID: 2147483648''
                    else [])\<rparr>"
  proof
    assume ILP32: "long_model pf = ILP32"
    have above: "parsePid pf ''2147483648'' = Some 2147483647"
      by (rule parsePid_above_maximum(3) [OF assms ILP32])
    have maximum: "parsePid pf ''2147483647'' = Some 2147483647"
      by (rule parsePid_examples(3) [OF assms])
    show "ProcessCollector_collect pf os ''2147483648'' \<noteq>
              createErrorResult ''2147483648'' ''Invalid PID format: 2147483648'' \<and>
            ProcessCollector_collect pf os ''2147483648'' =
              (ProcessCollector_collect pf os ''2147483647'')
                \<lparr>identifier' := ''2147483648'',
                 errorMessage :=
                   (if basicInfo os 2147483647 = None
                    then ''Process not found or access denied for PID: 2147483648''
                    else [])\<rparr>"
      by (cases "basicInfo os 2147483647")
         (simp_all add: ProcessCollector_collect_def above maximum collectBasicInfo_def
            createErrorResult_def MetadataResult0_def append_attributes_def Let_def)
  qed
qed

theorem pid_above_maximum_accepted_witness:
  "32 \<le> pid_t_bits aix32 \<and> long_model aix32 = ILP32 \<and>
   parsePid aix32 ''12x'' = None \<and>
   ProcessCollector_collect aix32 no_process ''12x'' =
     createErrorResult ''12x'' ''Invalid PID format: 12x'' \<and>
   parsePid aix32 ''2147483648'' = Some 2147483647 \<and>
   ProcessCollector_collect aix32 no_process ''2147483648'' =
     createErrorResult ''2147483648''
       ''Process not found or access denied for PID: 2147483648''"
proof -
  have b: "32 \<le> pid_t_bits aix32" and l: "long_model aix32 = ILP32"
    by (simp_all add: aix32_def)
  have n: "parsePid aix32 ''12x'' = None"
    by (rule parsePid_examples(5) [OF b])
  have o: "basicInfo no_process 2147483647 = None"
    by (simp add: no_process_def)
  have e: "ProcessCollector_collect aix32 no_process ''2147483647'' =
      createErrorResult ''2147483647''
        ''Process not found or access denied for PID: 2147483647''"
    by (simp add: ProcessCollector_collect_def parsePid_examples(3) [OF b] collectBasicInfo_def o)
  from pid_above_maximum_accepted [OF b, of "''12x''" no_process] b l n o e show ?thesis
    by (simp add: createErrorResult_def MetadataResult0_def)
qed

text \<open>
  C9. For a path whose \<open>lstat64\<close> record is a regular file with the permission
  bits 0644 (octal), \<open>FileCollector::collect\<close> succeeds and its attributes hold
  \<open>type\<close> = \<open>regular\<close>, \<open>mode_octal\<close> = \<open>0644\<close> and \<open>mode_symbolic\<close> = \<open>rw-r--r--\<close>. For
  every mode, \<open>modeToSymbolic\<close> is a string of 9 characters, \<open>rwx\<close> for owner,
  group and others with \<open>-\<close> for a bit that is not set, where the execute
  position of the owner shows \<open>s\<close> or \<open>S\<close> when the setuid bit is set, that of the
  group \<open>s\<close> or \<open>S\<close> when the setgid bit is set, and that of the others \<open>t\<close> or \<open>T\<close>
  when the sticky bit is set (lower case when the execute bit is set too).
\<close>

theorem mode_rendering:
  "(path \<noteq> [] \<and> os_lstat64 os (c_str path) = Inr st \<and> S_ISREG (st_mode st) \<and>
    st_mode st AND 0xFFF = 0x1A4 \<longrightarrow>
      success (FileCollector_collect os path) \<and>
      \<lparr>name = ''type'', vals = [''regular'']\<rparr> \<in> set (attributes (FileCollector_collect os path)) \<and>
      \<lparr>name = ''mode_octal'', vals = [''0644'']\<rparr>
        \<in> set (attributes (FileCollector_collect os path)) \<and>
      \<lparr>name = ''mode_symbolic'', vals = [''rw-r--r--'']\<rparr>
        \<in> set (attributes (FileCollector_collect os path))) \<and>
   length (modeToSymbolic mode) = 9 \<and>
   modeToSymbolic mode =
     [perm_char mode S_IRUSR (CHR ''r''), perm_char mode S_IWUSR (CHR ''w''),
      exec_char mode S_ISUID S_IXUSR (CHR ''s'') (CHR ''S''),
      perm_char mode S_IRGRP (CHR ''r''), perm_char mode S_IWGRP (CHR ''w''),
      exec_char mode S_ISGID S_IXGRP (CHR ''s'') (CHR ''S''),
      perm_char mode S_IROTH (CHR ''r''), perm_char mode S_IWOTH (CHR ''w''),
      exec_char mode S_ISVTX S_IXOTH (CHR ''t'') (CHR ''T'')]"
proof (intro conjI impI)
  assume a: "path \<noteq> [] \<and> os_lstat64 os (c_str path) = Inr st \<and> S_ISREG (st_mode st) \<and>
    st_mode st AND 0xFFF = 0x1A4"
  then have eq: "FileCollector_collect os path =
     collectAccessInfo os path
       ((emitStats os st st (MetadataResult0\<lparr>type := ''file'', identifier' := path\<rparr>))
          \<lparr>success := True\<rparr>)"
    by (simp add: FileCollector_collect_regular)
  from a have t: "fileTypeToString (st_mode st) = ''regular''"
    by (simp add: fileTypeToString_def)
  from a have o: "''0'' @ show_oct (unat (st_mode st AND 0xFFF)) = ''0644''"
    by (simp add: show_oct_0644)
  from a have s: "modeToSymbolic (st_mode st) = ''rw-r--r--''"
    by (simp add: modeToSymbolic_0644)
  show "success (FileCollector_collect os path)"
    by (simp add: eq success_collectAccessInfo)
  show "\<lparr>name = ''type'', vals = [''regular'']\<rparr> \<in> set (attributes (FileCollector_collect os path))"
    unfolding eq using mem_emitStats(1) [of st os st] t
    by (auto intro!: mem_collectAccessInfo)
  show "\<lparr>name = ''mode_octal'', vals = [''0644'']\<rparr>
        \<in> set (attributes (FileCollector_collect os path))"
    unfolding eq using mem_emitStats(2) [of st os st] o
    by (auto intro!: mem_collectAccessInfo)
  show "\<lparr>name = ''mode_symbolic'', vals = [''rw-r--r--'']\<rparr>
        \<in> set (attributes (FileCollector_collect os path))"
    unfolding eq using mem_emitStats(3) [of st os st] s
    by (auto intro!: mem_collectAccessInfo)
qed (simp_all add: modeToSymbolic_chars)

theorem mode_rendering_witness:
  "''/etc/passwd'' \<noteq> [] \<and>
   os_lstat64 passwd_os (c_str ''/etc/passwd'') = Inr passwd_stat \<and>
   S_ISREG (st_mode passwd_stat) \<and>
   st_mode passwd_stat AND 0xFFF = 0x1A4 \<and>
   success (FileCollector_collect passwd_os ''/etc/passwd'') \<and>
   \<lparr>name = ''type'', vals = [''regular'']\<rparr>
     \<in> set (attributes (FileCollector_collect passwd_os ''/etc/passwd'')) \<and>
   \<lparr>name = ''mode_octal'', vals = [''0644'']\<rparr>
     \<in> set (attributes (FileCollector_collect passwd_os ''/etc/passwd'')) \<and>
   \<lparr>name = ''mode_symbolic'', vals = [''rw-r--r--'']\<rparr>
     \<in> set (attributes (FileCollector_collect passwd_os ''/etc/passwd''))"
proof -
  have l: "os_lstat64 passwd_os (c_str ''/etc/passwd'') = Inr passwd_stat"
    by (simp add: passwd_os_def c_str_def)
  have r: "S_ISREG (st_mode passwd_stat)"
    by (simp add: passwd_stat_def S_ISREG_def S_IFMT_def S_IFREG_def)
  have m: "st_mode passwd_stat AND 0xFFF = 0x1A4"
    by (simp add: passwd_stat_def)
  from mode_rendering [of "''/etc/passwd''" passwd_os passwd_stat 0] l r m
  show ?thesis by simp
qed

text \<open>
  C10. A line whose local-address column has no dot gives no record, whatever
  the target port and whatever its foreign-address column: the loop of
  \<open>parseNetstatOutput\<close> leaves such a line before it compares any port. The line
  \<open>tcp4 0 0 loopback 10.1.1.1.8080 ESTABLISHED\<close> has the foreign port 8080 and
  gives no record for the target port 8080.
\<close>

theorem no_dot_line_skipped:
  "(netstat_columns line = Some (la, fa, st) \<and> CHR ''.'' \<notin> set la \<longrightarrow>
      parseNetstatLine pf sh port proto line w = (None, w)) \<and>
   netstat_columns ''tcp4 0 0 loopback 10.1.1.1.8080 ESTABLISHED'' =
     Some (''loopback'', ''10.1.1.1.8080'', ''ESTABLISHED'') \<and>
   port_number ''10.1.1.1.8080'' = Some 8080 \<and>
   parseNetstatOutput pf sh ''tcp4 0 0 loopback 10.1.1.1.8080 ESTABLISHED'' 8080 proto conns w =
     (conns, w)"
proof (intro conjI impI)
  assume "netstat_columns line = Some (la, fa, st) \<and> CHR ''.'' \<notin> set la"
  then show "parseNetstatLine pf sh port proto line w = (None, w)"
    by (simp add: parseNetstatLine_no_dot)
next
  show "netstat_columns ''tcp4 0 0 loopback 10.1.1.1.8080 ESTABLISHED'' =
     Some (''loopback'', ''10.1.1.1.8080'', ''ESTABLISHED'')"
    by (rule netstat_columns_examples)
next
  show "port_number ''10.1.1.1.8080'' = Some 8080"
    by (simp add: port_number_def port_token_examples decimal_integer_ports)
next
  have "parseNetstatLine pf sh 8080 proto ''tcp4 0 0 loopback 10.1.1.1.8080 ESTABLISHED'' w =
          (None, w)"
    by (rule parseNetstatLine_no_dot [OF netstat_columns_examples(3)]) simp
  moreover have "getlines [] ''tcp4 0 0 loopback 10.1.1.1.8080 ESTABLISHED'' =
          [''tcp4 0 0 loopback 10.1.1.1.8080 ESTABLISHED'']"
    by simp
  ultimately show
    "parseNetstatOutput pf sh ''tcp4 0 0 loopback 10.1.1.1.8080 ESTABLISHED'' 8080 proto conns w =
     (conns, w)"
    by (simp add: parseNetstatOutput_def)
qed

theorem no_dot_line_skipped_witness:
  "netstat_columns ''tcp4 0 0 loopback 10.1.1.1.8080 ESTABLISHED'' =
     Some (''loopback'', ''10.1.1.1.8080'', ''ESTABLISHED'') \<and>
   CHR ''.'' \<notin> set ''loopback'' \<and>
   parseNetstatLine aix32 no_shell 8080 ''tcp'' ''tcp4 0 0 loopback 10.1.1.1.8080 ESTABLISHED'' () =
     (None, ())"
  using no_dot_line_skipped [of "''tcp4 0 0 loopback 10.1.1.1.8080 ESTABLISHED''"
      "''loopback''" "''10.1.1.1.8080''" "''ESTABLISHED''" aix32 no_shell 8080 "''tcp''" "()" "[]"]
  by simp

end
